theory Spec2Isabelle
  imports Main "HOL-Library.Word"
begin

section \<open>The model-function accessor of \<open>mf.go\<close>\<close>

text \<open>
  \<open>mf.go\<close> is a cache-aside facade over a relational store (gorm) and a key-value
  cache (go-redis). Both clients are external: they are modelled here as one explicit
  \<open>world\<close> that every operation takes and returns. Each call to a client
  \<^item> is appended to \<open>trace\<close> (the calls the accessor issued, in order), and
  \<^item> consumes the head of \<open>faults\<close>: \<open>Some e\<close> makes that call fail with \<open>e\<close> and
    leaves the data untouched, \<open>None\<close> (or an exhausted list) lets it run.
  So any pattern of store and cache failures is an input of the model.
\<close>

subsection \<open>Values\<close>

type_synonym uint64 = "64 word"

text \<open>\<open>time.Duration\<close>: a count of nanoseconds.\<close>

type_synonym duration = int

definition Hour :: duration where
  "Hour = 3600 * 1000000000"

text \<open>
  The error values of the program. The five \<open>errors.New\<close> values of the source carry
  non-ASCII messages and are kept apart by constructor. \<open>Wrap\<close> is an error that
  unwraps to another one, which \<open>errors.Is\<close> follows.
\<close>

datatype error =
    RedisNil
  | ErrRecordNotFound
  | ErrNoLinkType
  | ErrGetLinkField
  | ErrCreateLinkId
  | ErrCreateLinkField
  | ErrDelLinkField
  | Failure string
  | Wrap string error

fun is_RedisNil :: "error \<Rightarrow> bool" where
  "is_RedisNil RedisNil = True"
| "is_RedisNil (Wrap s e) = is_RedisNil e"
| "is_RedisNil e = False"

fun is_RecordNotFound :: "error \<Rightarrow> bool" where
  "is_RecordNotFound ErrRecordNotFound = True"
| "is_RecordNotFound (Wrap s e) = is_RecordNotFound e"
| "is_RecordNotFound e = False"

text \<open>\<open>errors.Is(err, target)\<close> on a nil \<open>err\<close> is false.\<close>

definition ErrIsGormNil :: "error option \<Rightarrow> bool" where
  "ErrIsGormNil err = (case err of None \<Rightarrow> False | Some e \<Rightarrow> is_RecordNotFound e)"

definition ErrIsRedisNil :: "error option \<Rightarrow> bool" where
  "ErrIsRedisNil err = (case err of None \<Rightarrow> False | Some e \<Rightarrow> is_RedisNil e)"

subsection \<open>\<open>cast.ToString\<close> and \<open>cast.ToUint64\<close>\<close>

text \<open>
  \<open>cast.ToString\<close> of a \<open>uint64\<close> is \<open>strconv.FormatUint(v, 10)\<close>, its decimal
  numeral.
\<close>

definition digit_char :: "nat \<Rightarrow> char" where
  "digit_char d = ''0123456789'' ! d"

function decimal :: "nat \<Rightarrow> string" where
  "decimal n = (if n < 10 then [digit_char n] else decimal (n div 10) @ [digit_char (n mod 10)])"
  by pat_completeness auto
termination
  by (relation "measure (\<lambda>n. n)") auto

declare decimal.simps [simp del]

text \<open>
  \<open>cast.ToUint64\<close> of a string is \<open>strconv.ParseUint(s, 0, 64)\<close>, with 0 in place of
  every error. Base 0 means that the base is read from the prefix (\<open>0b\<close>, \<open>0o\<close>,
  \<open>0x\<close>, a bare leading \<open>0\<close> for octal, decimal otherwise) and that underscores may
  separate digits as in a Go literal. \<open>digit_val\<close> is the value of a digit or letter,
  \<open>parse_digits\<close> the loop over the bytes after the prefix (a byte that is no digit of
  the base, or a value from \<open>2^64\<close> on, is an error) and \<open>underscoreOK\<close> the final
  check of where the underscores stand.
\<close>

definition digit_val :: "char \<Rightarrow> nat option" where
  "digit_val ch =
     (let n = (of_char ch :: nat) in
      if 48 \<le> n \<and> n \<le> 57 then Some (n - 48)
      else if 97 \<le> n \<and> n \<le> 122 then Some (n - 87)
      else if 65 \<le> n \<and> n \<le> 90 then Some (n - 55)
      else None)"

fun parse_digits :: "nat \<Rightarrow> nat \<Rightarrow> string \<Rightarrow> nat option" where
  "parse_digits base n [] = Some n"
| "parse_digits base n (ch # s) =
     (if ch = CHR ''_'' then parse_digits base n s
      else case digit_val ch of
             None \<Rightarrow> None
           | Some d \<Rightarrow>
               if base \<le> d then None
               else if 2 ^ 64 \<le> base * n + d then None
               else parse_digits base (base * n + d) s)"

datatype saw = SawStart | SawDigit | SawUnderscore | SawOther

fun underscore_scan :: "bool \<Rightarrow> saw \<Rightarrow> string \<Rightarrow> bool" where
  "underscore_scan hex sw [] = (sw \<noteq> SawUnderscore)"
| "underscore_scan hex sw (ch # s) =
     (let n = (of_char ch :: nat) in
      if (48 \<le> n \<and> n \<le> 57)
         \<or> (hex \<and> ((97 \<le> n \<and> n \<le> 102) \<or> (65 \<le> n \<and> n \<le> 70)))
      then underscore_scan hex SawDigit s
      else if ch = CHR ''_'' then
        (if sw \<noteq> SawDigit then False else underscore_scan hex SawUnderscore s)
      else if sw = SawUnderscore then False
      else underscore_scan hex SawOther s)"

definition base_prefix :: "string \<Rightarrow> char option" where
  "base_prefix s =
     (case s of
        z # p # rest \<Rightarrow>
          if z = CHR ''0'' then
            (if p = CHR ''b'' \<or> p = CHR ''B'' then Some CHR ''b''
             else if p = CHR ''o'' \<or> p = CHR ''O'' then Some CHR ''o''
             else if p = CHR ''x'' \<or> p = CHR ''X'' then Some CHR ''x''
             else None)
          else None
      | _ \<Rightarrow> None)"

definition underscoreOK :: "string \<Rightarrow> bool" where
  "underscoreOK s0 =
     (let s = (case s0 of
                 ch # rest \<Rightarrow> if ch = CHR ''-'' \<or> ch = CHR ''+'' then rest else s0
               | [] \<Rightarrow> s0)
      in case base_prefix s of
           Some p \<Rightarrow> underscore_scan (p = CHR ''x'') SawDigit (drop 2 s)
         | None \<Rightarrow> underscore_scan False SawStart s)"

definition ParseUint0 :: "string \<Rightarrow> nat option" where
  "ParseUint0 s0 =
     (if s0 = [] then None
      else
        let (base, s) =
          (if hd s0 = CHR ''0'' then
             (if 3 \<le> length s0 then
                (case base_prefix s0 of
                   Some p \<Rightarrow>
                     (if p = CHR ''b'' then (2, drop 2 s0)
                      else if p = CHR ''o'' then (8, drop 2 s0)
                      else (16, drop 2 s0))
                 | None \<Rightarrow> (8, tl s0))
              else (8, tl s0))
           else (10, s0))
        in case parse_digits base 0 s of
             None \<Rightarrow> None
           | Some n \<Rightarrow> if CHR ''_'' \<in> set s \<and> \<not> underscoreOK s0 then None else Some n)"

text \<open>
  \<open>ParseUint0\<close> accepts no sign, so \<open>+7\<close> and \<open>-7\<close> convert to 0; the empty
  string converts to 0.
\<close>

definition cast_ToString :: "uint64 \<Rightarrow> string" where
  "cast_ToString i = decimal (unat i)"

definition cast_ToUint64 :: "string \<Rightarrow> uint64" where
  "cast_ToUint64 s = (case ParseUint0 s of None \<Rightarrow> 0 | Some n \<Rightarrow> of_nat n)"

subsection \<open>Store, cache and the world\<close>

text \<open>
  A row of the table: the soft-delete marker (\<open>0\<close> is the zero time \<open>time.Time{}\<close>)
  and the other columns by name. The id is the key of the table.
\<close>

record row =
  deleted_at :: nat
  cols :: "(string \<times> string) list"

datatype call =
    DbUpdates uint64
  | DbSave uint64
  | DbFirst uint64
  | DbFirstSD uint64
  | DbDelete uint64
  | DbSoftDelete uint64
  | RedisGet string
  | RedisSet string string duration
  | RedisDel string
  | ResolverFind string string

record world =
  rows :: "uint64 \<rightharpoonup> row"
  cache :: "string \<rightharpoonup> string \<times> duration"
  faults :: "error option list"
  clock :: nat
  trace :: "call list"

definition client_call :: "call \<Rightarrow> world \<Rightarrow> error option \<times> world" where
  "client_call cl w =
     (case faults w of
        [] \<Rightarrow> (None, w\<lparr>trace := trace w @ [cl]\<rparr>)
      | f # fs \<Rightarrow> (f, w\<lparr>faults := fs, trace := trace w @ [cl]\<rparr>))"

subsubsection \<open>The cache client\<close>

definition redis_Get :: "string \<Rightarrow> world \<Rightarrow> (string \<times> error option) \<times> world" where
  "redis_Get k w =
     (case client_call (RedisGet k) w of
        (Some e, w') \<Rightarrow> (([], Some e), w')
      | (None, w') \<Rightarrow>
          (case cache w' k of
             None \<Rightarrow> (([], Some RedisNil), w')
           | Some (v, ttl) \<Rightarrow> ((v, None), w')))"

definition redis_Set :: "string \<Rightarrow> string \<Rightarrow> duration \<Rightarrow> world \<Rightarrow> error option \<times> world" where
  "redis_Set k v ttl w =
     (case client_call (RedisSet k v ttl) w of
        (Some e, w') \<Rightarrow> (Some e, w')
      | (None, w') \<Rightarrow> (None, w'\<lparr>cache := (cache w')(k \<mapsto> (v, ttl))\<rparr>))"

definition redis_Del :: "string \<Rightarrow> world \<Rightarrow> error option \<times> world" where
  "redis_Del k w =
     (case client_call (RedisDel k) w of
        (Some e, w') \<Rightarrow> (Some e, w')
      | (None, w') \<Rightarrow> (None, w'\<lparr>cache := (cache w')(k := None)\<rparr>))"

subsubsection \<open>The store client\<close>

text \<open>
  \<open>Updates\<close> writes the non-zero fields of the given value into the matched row,
  \<open>Save\<close> overwrites the matched row, \<open>Delete\<close> removes it and \<open>First\<close> reads it
  (\<open>ErrRecordNotFound\<close> when no row matches). A write that matches no row is no error.
\<close>

definition merge_nonzero :: "row \<Rightarrow> row \<Rightarrow> row" where
  "merge_nonzero old new =
     \<lparr> deleted_at = (if deleted_at new = 0 then deleted_at old else deleted_at new),
       cols = map (\<lambda>(k, v). case map_of (cols new) k of
                               None \<Rightarrow> (k, v)
                             | Some v' \<Rightarrow> if v' = [] then (k, v) else (k, v')) (cols old) \<rparr>"

definition db_write :: "call \<Rightarrow> uint64 \<Rightarrow> (row \<Rightarrow> row option) \<Rightarrow> world \<Rightarrow> error option \<times> world" where
  "db_write cl i f w =
     (case client_call cl w of
        (Some e, w') \<Rightarrow> (Some e, w')
      | (None, w') \<Rightarrow>
          (case rows w' i of
             None \<Rightarrow> (None, w')
           | Some old \<Rightarrow> (None, w'\<lparr>rows := (rows w')(i := f old)\<rparr>)))"

definition db_read :: "call \<Rightarrow> uint64 \<Rightarrow> (row \<Rightarrow> bool) \<Rightarrow> world \<Rightarrow> (error + row) \<times> world" where
  "db_read cl i p w =
     (case client_call cl w of
        (Some e, w') \<Rightarrow> (Inl e, w')
      | (None, w') \<Rightarrow>
          (case rows w' i of
             None \<Rightarrow> (Inl ErrRecordNotFound, w')
           | Some r \<Rightarrow> if p r then (Inr r, w') else (Inl ErrRecordNotFound, w')))"

subsection \<open>Records, hooks, resolvers and the configuration\<close>

text \<open>
  A hook is a method of the Record's type, found by name through reflection. It gets
  the store and cache handles, so it may change the world, and its receiver. Its first
  result is either a non-nil \<open>error\<close> or anything else (\<open>nil\<close> included). The JSON
  encoding of a Record also belongs to its type. \<open>json.Marshal\<close>'s error is dropped
  by the source, so only its bytes appear; \<open>json.Unmarshal\<close> returns its error and
  the value it left in the Record.
\<close>

datatype hook_ret = RetError error | RetOther

type_synonym hook_fn = "row \<Rightarrow> world \<Rightarrow> hook_ret \<times> row \<times> world"

record model =
  val :: row
  methods :: "string \<rightharpoonup> hook_fn"
  json_Marshal :: "row \<Rightarrow> string"
  json_Unmarshal :: "string \<Rightarrow> row \<Rightarrow> error option \<times> row"

text \<open>The interface \<open>LinkFinder\<close>.\<close>

record finder =
  Find :: "(uint64 \<rightharpoonup> row) \<Rightarrow> string \<Rightarrow> uint64 \<times> error option"
  FieldValue :: "row \<Rightarrow> string"

text \<open>
  The struct \<open>ModelFunc\<close> without its two client handles, which are the world.
  \<open>LinkMap\<close> is a Go map: the list gives the order in which \<open>range\<close> happens to visit
  it, and a lookup finds the entry of a key.
\<close>

record ModelFunc =
  UseCache :: bool
  RedisPrefix :: string
  Expire :: duration
  LinkMap :: "(string \<times> finder) list"

subsection \<open>Cache keys and the primary cache entry\<close>

definition cacheKey :: "ModelFunc \<Rightarrow> uint64 \<Rightarrow> string" where
  "cacheKey c i = RedisPrefix c @ ''id:'' @ cast_ToString i"

definition deleteCache :: "ModelFunc \<Rightarrow> uint64 \<Rightarrow> world \<Rightarrow> error option \<times> world" where
  "deleteCache c i w = redis_Del (cacheKey c i) w"

definition updateCache :: "ModelFunc \<Rightarrow> model \<Rightarrow> uint64 \<Rightarrow> world \<Rightarrow> error option \<times> world" where
  "updateCache c m i w = redis_Set (cacheKey c i) (json_Marshal m (val m)) (Expire c) w"

definition getCache :: "ModelFunc \<Rightarrow> model \<Rightarrow> uint64 \<Rightarrow> world \<Rightarrow> error option \<times> model \<times> world" where
  "getCache c m i w =
     (case redis_Get (cacheKey c i) w of
        ((res, Some err), w') \<Rightarrow> (Some err, m, w')
      | ((res, None), w') \<Rightarrow>
          (case json_Unmarshal m res (val m) of
             (err, r) \<Rightarrow> (err, m\<lparr>val := r\<rparr>, w')))"

subsection \<open>The link cache\<close>

definition linkKey :: "ModelFunc \<Rightarrow> string \<Rightarrow> string \<Rightarrow> string" where
  "linkKey c linkType field = RedisPrefix c @ linkType @ '':'' @ field"

definition getLink :: "ModelFunc \<Rightarrow> string \<Rightarrow> string \<Rightarrow> world \<Rightarrow> (string \<times> error option) \<times> world" where
  "getLink c linkType field w =
     (if field = [] then (([], Some ErrGetLinkField), w)
      else redis_Get (linkKey c linkType field) w)"

definition createLink :: "ModelFunc \<Rightarrow> uint64 \<Rightarrow> string \<Rightarrow> string \<Rightarrow> world \<Rightarrow> error option \<times> world" where
  "createLink c i linkType field w =
     (if i = 0 then (Some ErrCreateLinkId, w)
      else if field = [] then (Some ErrCreateLinkField, w)
      else redis_Set (linkKey c linkType field) (cast_ToString i) (Hour * 24 * 7) w)"

definition delLink :: "ModelFunc \<Rightarrow> string \<Rightarrow> string \<Rightarrow> world \<Rightarrow> error option \<times> world" where
  "delLink c linkType field w =
     (if field = [] then (Some ErrDelLinkField, w)
      else redis_Del (linkKey c linkType field) w)"

text \<open>
  The loop \<open>for linkType, linkFunc := range c.LinkMap { c.delLink(...) }\<close> that the
  four cache-mode mutations share: the result of \<open>delLink\<close> is not looked at.
\<close>

fun delLinks :: "ModelFunc \<Rightarrow> model \<Rightarrow> (string \<times> finder) list \<Rightarrow> world \<Rightarrow> world" where
  "delLinks c m [] w = w"
| "delLinks c m ((linkType, linkFunc) # rest) w =
     delLinks c m rest (snd (delLink c linkType (FieldValue linkFunc (val m)) w))"

subsection \<open>Store-only variants\<close>

definition GetNowTime :: "world \<Rightarrow> nat" where
  "GetNowTime w = clock w"

definition updateByIdM :: "ModelFunc \<Rightarrow> model \<Rightarrow> uint64 \<Rightarrow> world \<Rightarrow> error option \<times> world" where
  "updateByIdM c m i w = db_write (DbUpdates i) i (\<lambda>old. Some (merge_nonzero old (val m))) w"

definition saveByIdM :: "ModelFunc \<Rightarrow> model \<Rightarrow> uint64 \<Rightarrow> world \<Rightarrow> error option \<times> world" where
  "saveByIdM c m i w = db_write (DbSave i) i (\<lambda>old. Some (val m)) w"

definition deleteByIdM :: "ModelFunc \<Rightarrow> model \<Rightarrow> uint64 \<Rightarrow> world \<Rightarrow> error option \<times> world" where
  "deleteByIdM c m i w = db_write (DbDelete i) i (\<lambda>old. None) w"

definition softDeleteByIdM :: "ModelFunc \<Rightarrow> model \<Rightarrow> uint64 \<Rightarrow> world \<Rightarrow> error option \<times> world" where
  "softDeleteByIdM c m i w =
     db_write (DbSoftDelete i) i (\<lambda>old. Some (old\<lparr>deleted_at := GetNowTime w\<rparr>)) w"

definition firstByIdM :: "ModelFunc \<Rightarrow> model \<Rightarrow> uint64 \<Rightarrow> world \<Rightarrow> error option \<times> model \<times> world" where
  "firstByIdM c m i w =
     (case db_read (DbFirst i) i (\<lambda>r. True) w of
        (Inl err, w') \<Rightarrow> (Some err, m, w')
      | (Inr r, w') \<Rightarrow> (None, m\<lparr>val := r\<rparr>, w'))"

definition firstByIdFilterSoftDelM ::
  "ModelFunc \<Rightarrow> model \<Rightarrow> uint64 \<Rightarrow> world \<Rightarrow> error option \<times> model \<times> world" where
  "firstByIdFilterSoftDelM c m i w =
     (case db_read (DbFirstSD i) i (\<lambda>r. deleted_at r = 0) w of
        (Inl err, w') \<Rightarrow> (Some err, m, w')
      | (Inr r, w') \<Rightarrow> (None, m\<lparr>val := r\<rparr>, w'))"

subsection \<open>Cache-mode variants\<close>

definition updateByIdR :: "ModelFunc \<Rightarrow> model \<Rightarrow> uint64 \<Rightarrow> world \<Rightarrow> error option \<times> world" where
  "updateByIdR c m i w =
     (case updateByIdM c m i w of
        (Some err, w1) \<Rightarrow> (Some err, w1)
      | (None, w1) \<Rightarrow>
          (case deleteCache c i w1 of
             (Some err, w2) \<Rightarrow> (Some err, w2)
           | (None, w2) \<Rightarrow> (None, delLinks c m (LinkMap c) w2)))"

definition saveByIdR :: "ModelFunc \<Rightarrow> model \<Rightarrow> uint64 \<Rightarrow> world \<Rightarrow> error option \<times> world" where
  "saveByIdR c m i w =
     (case saveByIdM c m i w of
        (Some err, w1) \<Rightarrow> (Some err, w1)
      | (None, w1) \<Rightarrow>
          (case deleteCache c i w1 of
             (Some err, w2) \<Rightarrow> (Some err, w2)
           | (None, w2) \<Rightarrow> (None, delLinks c m (LinkMap c) w2)))"

definition deleteByIdR :: "ModelFunc \<Rightarrow> model \<Rightarrow> uint64 \<Rightarrow> world \<Rightarrow> error option \<times> world" where
  "deleteByIdR c m i w =
     (case deleteByIdM c m i w of
        (Some err, w1) \<Rightarrow> (Some err, w1)
      | (None, w1) \<Rightarrow>
          (case deleteCache c i w1 of
             (Some err, w2) \<Rightarrow> (Some err, w2)
           | (None, w2) \<Rightarrow> (None, delLinks c m (LinkMap c) w2)))"

definition softDeleteByIdR :: "ModelFunc \<Rightarrow> model \<Rightarrow> uint64 \<Rightarrow> world \<Rightarrow> error option \<times> world" where
  "softDeleteByIdR c m i w =
     (case softDeleteByIdM c m i w of
        (Some err, w1) \<Rightarrow> (Some err, w1)
      | (None, w1) \<Rightarrow>
          (case deleteCache c i w1 of
             (Some err, w2) \<Rightarrow> (Some err, w2)
           | (None, w2) \<Rightarrow> (None, delLinks c m (LinkMap c) w2)))"

definition firstByIdR :: "ModelFunc \<Rightarrow> model \<Rightarrow> uint64 \<Rightarrow> world \<Rightarrow> error option \<times> model \<times> world" where
  "firstByIdR c m i w =
     (case getCache c m i w of
        (err, m1, w1) \<Rightarrow>
          if err \<noteq> None \<and> \<not> ErrIsRedisNil err then (err, m1, w1)
          else if ErrIsRedisNil err then
            (case firstByIdM c m1 i w1 of
               (Some err2, m2, w2) \<Rightarrow> (Some err2, m2, w2)
             | (None, m2, w2) \<Rightarrow>
                 (case updateCache c m2 i w2 of
                    (Some err3, w3) \<Rightarrow> (Some err3, m2, w3)
                  | (None, w3) \<Rightarrow> (None, m2, w3)))
          else (None, m1, w1))"

definition firstByIdFilterSoftDelR ::
  "ModelFunc \<Rightarrow> model \<Rightarrow> uint64 \<Rightarrow> world \<Rightarrow> error option \<times> model \<times> world" where
  "firstByIdFilterSoftDelR c m i w =
     (case getCache c m i w of
        (err, m1, w1) \<Rightarrow>
          if err \<noteq> None \<and> \<not> ErrIsRedisNil err then (err, m1, w1)
          else if ErrIsRedisNil err then
            (case firstByIdFilterSoftDelM c m1 i w1 of
               (Some err2, m2, w2) \<Rightarrow> (Some err2, m2, w2)
             | (None, m2, w2) \<Rightarrow>
                 (case updateCache c m2 i w2 of
                    (Some err3, w3) \<Rightarrow> (Some err3, m2, w3)
                  | (None, w3) \<Rightarrow> (None, m2, w3)))
          else (None, m1, w1))"

subsection \<open>Hook dispatch\<close>

text \<open>
  \<open>MethodByName\<close> finds the method or not; the first result of the call is returned
  when it is an \<open>error\<close>, and \<open>nil\<close> is returned otherwise. The hooks modelled take
  the three documented parameters and return one value.
\<close>

definition hook :: "ModelFunc \<Rightarrow> string \<Rightarrow> model \<Rightarrow> world \<Rightarrow> error option \<times> model \<times> world" where
  "hook c hookMethod m w =
     (case methods m hookMethod of
        None \<Rightarrow> (None, m, w)
      | Some h \<Rightarrow>
          (case h (val m) w of
             (RetError e, r, w') \<Rightarrow> (Some e, m\<lparr>val := r\<rparr>, w')
           | (RetOther, r, w') \<Rightarrow> (None, m\<lparr>val := r\<rparr>, w')))"

subsection \<open>Public operations\<close>

text \<open>
  In the four mutations the source assigns the result of the store/cache step to the
  named result \<open>err\<close> and then returns \<open>c.hook(...)\<close>: the value of \<open>err\<close> is not
  read again.
\<close>

definition UpdateById :: "ModelFunc \<Rightarrow> model \<Rightarrow> uint64 \<Rightarrow> world \<Rightarrow> error option \<times> model \<times> world" where
  "UpdateById c m i w =
     (case (if UseCache c then updateByIdR c m i w else updateByIdM c m i w) of
        (err, w1) \<Rightarrow> hook c ''MfAfterUpdateById'' m w1)"

definition SaveById :: "ModelFunc \<Rightarrow> model \<Rightarrow> uint64 \<Rightarrow> world \<Rightarrow> error option \<times> model \<times> world" where
  "SaveById c m i w =
     (case (if UseCache c then saveByIdR c m i w else saveByIdM c m i w) of
        (err, w1) \<Rightarrow> hook c ''MfAfterSaveById'' m w1)"

definition DeleteById :: "ModelFunc \<Rightarrow> model \<Rightarrow> uint64 \<Rightarrow> world \<Rightarrow> error option \<times> model \<times> world" where
  "DeleteById c m i w =
     (case (if UseCache c then deleteByIdR c m i w else deleteByIdM c m i w) of
        (err, w1) \<Rightarrow> hook c ''MfAfterDeleteById'' m w1)"

definition SoftDeleteById :: "ModelFunc \<Rightarrow> model \<Rightarrow> uint64 \<Rightarrow> world \<Rightarrow> error option \<times> model \<times> world" where
  "SoftDeleteById c m i w =
     (case (if UseCache c then softDeleteByIdR c m i w else softDeleteByIdM c m i w) of
        (err, w1) \<Rightarrow> hook c ''MfAfterSoftDeleteById'' m w1)"

definition FirstById :: "ModelFunc \<Rightarrow> model \<Rightarrow> uint64 \<Rightarrow> world \<Rightarrow> error option \<times> model \<times> world" where
  "FirstById c m i w = (if UseCache c then firstByIdR c m i w else firstByIdM c m i w)"

definition FirstByIdSD :: "ModelFunc \<Rightarrow> model \<Rightarrow> uint64 \<Rightarrow> world \<Rightarrow> error option \<times> model \<times> world" where
  "FirstByIdSD c m i w =
     (if UseCache c then firstByIdFilterSoftDelR c m i w else firstByIdFilterSoftDelM c m i w)"

text \<open>
  \<open>FirstByLink\<close>: the local \<open>id\<close> is the string read from the link cache (empty when
  the lookup failed, whose error is dropped), replaced by the resolver's id when it
  converts to 0. The inner value is \<open>Inl\<close> where the source returns early.
\<close>

definition FirstByLink ::
  "ModelFunc \<Rightarrow> string \<Rightarrow> model \<Rightarrow> string \<Rightarrow> world \<Rightarrow> error option \<times> model \<times> world" where
  "FirstByLink c linkType m field w =
     (case map_of (LinkMap c) linkType of
        None \<Rightarrow> (Some ErrNoLinkType, m, w)
      | Some fnd \<Rightarrow>
          (case getLink c linkType field w of
             ((id0, dropped), w1) \<Rightarrow>
               (case (if cast_ToUint64 id0 = 0 then
                        (case Find fnd (rows w1) field of
                           (idInt, err) \<Rightarrow>
                             (let w2 = w1\<lparr>trace := trace w1 @ [ResolverFind linkType field]\<rparr> in
                              case err of
                                Some e \<Rightarrow> Inl (e, w2)
                              | None \<Rightarrow>
                                  if idInt > 0 then
                                    (case createLink c idInt linkType field w2 of
                                       (Some e, w3) \<Rightarrow> Inl (e, w3)
                                     | (None, w3) \<Rightarrow> Inr (cast_ToString idInt, w3))
                                  else Inr (id0, w2)))
                      else Inr (id0, w1)) of
                  Inl (e, w') \<Rightarrow> (Some e, m, w')
                | Inr (id1, w') \<Rightarrow>
                    if cast_ToUint64 id1 > 0 then FirstById c m (cast_ToUint64 id1) w'
                    else (None, m, w'))))"

definition FirstByLinkSD ::
  "ModelFunc \<Rightarrow> string \<Rightarrow> model \<Rightarrow> string \<Rightarrow> world \<Rightarrow> error option \<times> model \<times> world" where
  "FirstByLinkSD c linkType m field w =
     (case map_of (LinkMap c) linkType of
        None \<Rightarrow> (Some ErrNoLinkType, m, w)
      | Some fnd \<Rightarrow>
          (case getLink c linkType field w of
             ((id0, dropped), w1) \<Rightarrow>
               (case (if cast_ToUint64 id0 = 0 then
                        (case Find fnd (rows w1) field of
                           (idInt, err) \<Rightarrow>
                             (let w2 = w1\<lparr>trace := trace w1 @ [ResolverFind linkType field]\<rparr> in
                              case err of
                                Some e \<Rightarrow> Inl (e, w2)
                              | None \<Rightarrow>
                                  if idInt > 0 then
                                    (case createLink c idInt linkType field w2 of
                                       (Some e, w3) \<Rightarrow> Inl (e, w3)
                                     | (None, w3) \<Rightarrow> Inr (cast_ToString idInt, w3))
                                  else Inr (id0, w2)))
                      else Inr (id0, w1)) of
                  Inl (e, w') \<Rightarrow> (Some e, m, w')
                | Inr (id1, w') \<Rightarrow>
                    if cast_ToUint64 id1 > 0 then FirstById c m (cast_ToUint64 id1) w'
                    else (None, m, w'))))"

section \<open>Observations and sample inputs\<close>

text \<open>
  The cache deletions the loop of a cache-mode mutation sends, in the order of the loop:
  one \<open>DEL\<close> for every registered linkType whose extracted field value is not empty
  (for an empty one \<open>delLink\<close> returns its missing-parameter error and sends nothing).
\<close>

definition link_del_calls :: "ModelFunc \<Rightarrow> model \<Rightarrow> (string \<times> finder) list \<Rightarrow> call list" where
  "link_del_calls c m links =
     map (\<lambda>(linkType, linkFunc). RedisDel (linkKey c linkType (FieldValue linkFunc (val m))))
       (filter (\<lambda>(linkType, linkFunc). FieldValue linkFunc (val m) \<noteq> []) links)"

text \<open>
  The body that \<open>updateByIdR\<close>, \<open>saveByIdR\<close>, \<open>deleteByIdR\<close> and
  \<open>softDeleteByIdR\<close> have in common, over the store write they start with. It is
  used to prove facts about the four at once.
\<close>

definition invalidating ::
  "(world \<Rightarrow> error option \<times> world) \<Rightarrow> ModelFunc \<Rightarrow> model \<Rightarrow> uint64 \<Rightarrow> world \<Rightarrow> error option \<times> world" where
  "invalidating write c m i w =
     (case write w of
        (Some err, w1) \<Rightarrow> (Some err, w1)
      | (None, w1) \<Rightarrow>
          (case deleteCache c i w1 of
             (Some err, w2) \<Rightarrow> (Some err, w2)
           | (None, w2) \<Rightarrow> (None, delLinks c m (LinkMap c) w2)))"

text \<open>
  What the first two client calls of such a body decide: the error of the store write,
  or else the error of the primary delete.
\<close>

definition first_two :: "error option list \<Rightarrow> error option" where
  "first_two fs =
     (case fs of [] \<Rightarrow> None | Some e # fs' \<Rightarrow> Some e
      | None # fs' \<Rightarrow> (case fs' of [] \<Rightarrow> None | f # fs'' \<Rightarrow> f))"

subsection \<open>A sample configuration\<close>

text \<open>
  A Record type with one column \<open>email\<close>, encoded as the soft-delete marker, a bar
  and the column; one linkType \<open>email\<close> whose resolver knows the row 7; a store that
  holds row 7; an empty cache.
\<close>

definition ex_marshal :: "row \<Rightarrow> string" where
  "ex_marshal r =
     decimal (deleted_at r) @ ''|'' @ (case map_of (cols r) ''email'' of None \<Rightarrow> [] | Some v \<Rightarrow> v)"

definition ex_unmarshal :: "string \<Rightarrow> row \<Rightarrow> error option \<times> row" where
  "ex_unmarshal s old =
     (case parse_digits 10 0 (takeWhile (\<lambda>ch. ch \<noteq> CHR ''|'') s) of
        None \<Rightarrow> (Some (Failure ''invalid''), old)
      | Some n \<Rightarrow>
          (None, \<lparr> deleted_at = n,
                   cols = [(''email'', drop 1 (dropWhile (\<lambda>ch. ch \<noteq> CHR ''|'') s))] \<rparr>))"

definition ex_finder :: finder where
  "ex_finder =
     \<lparr> Find = (\<lambda>tbl field. if field = ''a@b'' then (7, None) else (0, None)),
       FieldValue = (\<lambda>r. case map_of (cols r) ''email'' of None \<Rightarrow> [] | Some v \<Rightarrow> v) \<rparr>"

definition ex_conf :: ModelFunc where
  "ex_conf = \<lparr> UseCache = True, RedisPrefix = ''app:'', Expire = 60000000000,
               LinkMap = [(''email'', ex_finder)] \<rparr>"

definition ex_row :: row where
  "ex_row = \<lparr> deleted_at = 0, cols = [(''email'', ''a@b'')] \<rparr>"

definition ex_model :: model where
  "ex_model = \<lparr> val = ex_row, methods = Map.empty,
                json_Marshal = ex_marshal, json_Unmarshal = ex_unmarshal \<rparr>"

definition ex_world :: world where
  "ex_world = \<lparr> rows = [7 \<mapsto> ex_row], cache = Map.empty, faults = [], clock = 1000, trace = [] \<rparr>"

text \<open>
  Variations: the primary entry of row 7 cached; the next client call failing; a Record
  with empty fields to read into; a Record type with the four hooks, each failing; row 7
  soft-deleted, without and with a cached copy from before; a cached link that does not
  convert, and one in hexadecimal for a field the resolver does not know; a registry of
  three linkTypes, the second with an empty field value.
\<close>

definition ex_hit :: world where
  "ex_hit = ex_world\<lparr>cache := [''app:id:7'' \<mapsto> (''0|a@b'', 60000000000)]\<rparr>"

definition ex_down :: world where
  "ex_down = ex_world\<lparr>faults := [Some (Failure ''connection refused'')]\<rparr>"

definition ex_blank :: model where
  "ex_blank = ex_model\<lparr>val := \<lparr>deleted_at = 0, cols = []\<rparr>\<rparr>"

definition ex_hooked :: model where
  "ex_hooked = ex_model\<lparr>methods :=
     [''MfAfterUpdateById'' \<mapsto> (\<lambda>r w. (RetError (Failure ''hook''), r, w)),
      ''MfAfterSaveById'' \<mapsto> (\<lambda>r w. (RetError (Failure ''hook''), r, w)),
      ''MfAfterDeleteById'' \<mapsto> (\<lambda>r w. (RetError (Failure ''hook''), r, w)),
      ''MfAfterSoftDeleteById'' \<mapsto> (\<lambda>r w. (RetError (Failure ''hook''), r, w))]\<rparr>"

definition ex_gone :: world where
  "ex_gone = ex_world\<lparr>rows := [7 \<mapsto> ex_row\<lparr>deleted_at := 99\<rparr>]\<rparr>"

definition ex_stale :: world where
  "ex_stale = ex_gone\<lparr>cache := [''app:id:7'' \<mapsto> (''0|a@b'', 60000000000)]\<rparr>"

definition ex_bad_link :: world where
  "ex_bad_link = ex_world\<lparr>cache := [''app:email:a@b'' \<mapsto> (''08'', 604800000000000)]\<rparr>"

definition ex_hex_link :: world where
  "ex_hex_link = ex_world\<lparr>cache := [''app:email:x@y'' \<mapsto> (''0x7'', 604800000000000)]\<rparr>"

definition ex_two_links :: ModelFunc where
  "ex_two_links = ex_conf\<lparr>LinkMap := [(''email'', ex_finder),
     (''nick'', \<lparr> Find = (\<lambda>tbl field. (0, None)), FieldValue = (\<lambda>r. []) \<rparr>),
     (''mail2'', ex_finder)]\<rparr>"

lemmas ex_defs = ex_marshal_def ex_unmarshal_def ex_finder_def ex_conf_def ex_row_def
  ex_model_def ex_world_def ex_hit_def ex_down_def ex_blank_def ex_hooked_def ex_gone_def
  ex_stale_def ex_two_links_def ex_bad_link_def ex_hex_link_def

lemmas op_defs = UpdateById_def SaveById_def DeleteById_def SoftDeleteById_def FirstById_def
  FirstByIdSD_def updateByIdR_def saveByIdR_def deleteByIdR_def softDeleteByIdR_def
  firstByIdR_def firstByIdFilterSoftDelR_def updateByIdM_def saveByIdM_def deleteByIdM_def
  softDeleteByIdM_def firstByIdM_def firstByIdFilterSoftDelM_def hook_def deleteCache_def
  updateCache_def getCache_def cacheKey_def linkKey_def getLink_def createLink_def delLink_def
  db_write_def db_read_def redis_Get_def redis_Set_def redis_Del_def client_call_def
  merge_nonzero_def GetNowTime_def cast_ToString_def cast_ToUint64_def decimal.simps
  digit_char_def digit_val_def ParseUint0_def base_prefix_def underscoreOK_def
  ErrIsRedisNil_def Hour_def

section \<open>Decimal numerals\<close>

lemma digit_val_digit_char: "d < 10 \<Longrightarrow> digit_val (digit_char d) = Some d"
  by (auto simp add: eval_nat_numeral less_Suc_eq digit_val_def digit_char_def)

lemma digit_char_not_underscore: "d < 10 \<Longrightarrow> digit_char d \<noteq> CHR ''_''"
  by (auto simp add: eval_nat_numeral less_Suc_eq digit_char_def)

lemma digit_char_zero: "d < 10 \<Longrightarrow> (digit_char d = CHR ''0'') = (d = 0)"
  by (auto simp add: eval_nat_numeral less_Suc_eq digit_char_def)

lemma parse_digits_append:
  "parse_digits b n (s @ t) =
     (case parse_digits b n s of None \<Rightarrow> None | Some k \<Rightarrow> parse_digits b k t)"
  by (induction s arbitrary: n) (simp_all split: option.splits)

lemma parse_digits_decimal: "n < 2 ^ 64 \<Longrightarrow> parse_digits 10 0 (decimal n) = Some n"
proof (induction n rule: decimal.induct)
  case (1 n)
  show ?case
  proof (cases "n < 10")
    case True
    then show ?thesis
      using "1.prems"
      by (subst decimal.simps)
         (simp add: digit_val_digit_char digit_char_not_underscore)
  next
    case False
    have "n div 10 < 2 ^ 64"
      using "1.prems" by (simp add: less_mult_imp_div_less)
    then have "parse_digits 10 0 (decimal (n div 10)) = Some (n div 10)"
      using "1.IH" False by simp
    with False "1.prems" show ?thesis
      by (subst decimal.simps)
         (simp add: parse_digits_append digit_val_digit_char digit_char_not_underscore)
  qed
qed

lemma decimal_not_Nil: "decimal n \<noteq> []"
  by (subst decimal.simps) simp

lemma hd_decimal: "(hd (decimal n) = CHR ''0'') = (n = 0)"
proof (induction n rule: decimal.induct)
  case (1 n)
  show ?case
  proof (cases "n < 10")
    case True
    then show ?thesis
      by (subst decimal.simps) (simp add: digit_char_zero)
  next
    case False
    then have "hd (decimal (n div 10)) \<noteq> CHR ''0''"
      using "1.IH" by simp
    with False show ?thesis
      by (subst decimal.simps) (simp add: decimal_not_Nil)
  qed
qed

lemma decimal_no_underscore: "CHR ''_'' \<notin> set (decimal n)"
proof (induction n rule: decimal.induct)
  case (1 n)
  show ?case
  proof (cases "n < 10")
    case True
    then show ?thesis
      using digit_char_not_underscore [of n]
      by (subst decimal.simps) auto
  next
    case False
    then show ?thesis
      using "1.IH" digit_char_not_underscore [of "n mod 10"]
      by (subst decimal.simps) auto
  qed
qed

lemma decimal_zero: "decimal 0 = ''0''"
  by (simp add: decimal.simps digit_char_def)

lemma ParseUint0_decimal: "n < 2 ^ 64 \<Longrightarrow> ParseUint0 (decimal n) = Some n"
proof (cases "n = 0")
  case True
  then show ?thesis
    by (simp add: decimal_zero ParseUint0_def)
next
  case False
  assume "n < 2 ^ 64"
  with False show ?thesis
    by (simp add: ParseUint0_def decimal_not_Nil hd_decimal parse_digits_decimal
          decimal_no_underscore)
qed

lemma cast_roundtrip: "cast_ToUint64 (cast_ToString i) = i"
proof -
  have "unat i < 2 ^ 64"
    using unsigned_less [of i] by simp
  then show ?thesis
    by (simp add: cast_ToUint64_def cast_ToString_def ParseUint0_decimal)
qed

lemma cast_ToUint64_Nil: "cast_ToUint64 [] = 0"
  by (simp add: cast_ToUint64_def ParseUint0_def)


text \<open>What the conversion makes of strings that are no plain decimal numerals.\<close>

lemma cast_ToUint64_examples:
  "cast_ToUint64 ''42'' = 42"
  "cast_ToUint64 ''0x7'' = 7"
  "cast_ToUint64 ''0X1f'' = 31"
  "cast_ToUint64 ''010'' = 8"
  "cast_ToUint64 ''08'' = 0"
  "cast_ToUint64 ''0b101'' = 5"
  "cast_ToUint64 ''0o17'' = 15"
  "cast_ToUint64 ''1_000'' = 1000"
  "cast_ToUint64 ''1__000'' = 0"
  "cast_ToUint64 ''_1'' = 0"
  "cast_ToUint64 ''1_'' = 0"
  "cast_ToUint64 ''0x_1'' = 1"
  "cast_ToUint64 ''+7'' = 0"
  "cast_ToUint64 ''-7'' = 0"
  "cast_ToUint64 ''7a'' = 0"
  "cast_ToUint64 ''0'' = 0"
  "cast_ToUint64 ''18446744073709551615'' = 18446744073709551615"
  "cast_ToUint64 ''18446744073709551616'' = 0"
  by (simp_all add: cast_ToUint64_def ParseUint0_def base_prefix_def underscoreOK_def
        digit_val_def)

section \<open>Client calls\<close>

lemma client_call_trace: "trace (snd (client_call cl w)) = trace w @ [cl]"
  by (simp add: client_call_def split: list.splits)

lemma client_call_fst: "fst (client_call cl w) = (case faults w of [] \<Rightarrow> None | f # fs \<Rightarrow> f)"
  by (simp add: client_call_def split: list.splits)

lemma redis_Del_trace: "trace (snd (redis_Del k w)) = trace w @ [RedisDel k]"
  using client_call_trace [of "RedisDel k" w]
  by (auto simp add: redis_Del_def split: prod.splits option.splits)

lemma redis_Del_fails: "fst (redis_Del k w) = fst (client_call (RedisDel k) w)"
  by (auto simp add: redis_Del_def split: prod.splits option.splits)

lemma redis_Del_cache_absent: "cache w k = None \<Longrightarrow> cache (snd (redis_Del k' w)) k = None"
  by (auto simp add: redis_Del_def client_call_def split: list.splits option.splits)

lemma redis_Get_trace: "trace (snd (redis_Get k w)) = trace w @ [RedisGet k]"
  using client_call_trace [of "RedisGet k" w]
  by (auto simp add: redis_Get_def split: prod.splits option.splits)

lemma db_write_trace: "trace (snd (db_write cl i f w)) = trace w @ [cl]"
  using client_call_trace [of cl w]
  by (auto simp add: db_write_def split: prod.splits option.splits)

lemma db_write_cache: "cache (snd (db_write cl i f w)) = cache w"
  by (auto simp add: db_write_def client_call_def split: prod.splits option.splits list.splits)

lemma db_write_fails: "fst (db_write cl i f w) = fst (client_call cl w)"
  by (auto simp add: db_write_def split: prod.splits option.splits)

lemma db_write_faults: "faults (snd (db_write cl i f w)) = tl (faults w)"
  by (auto simp add: db_write_def client_call_def split: prod.splits option.splits list.splits)

lemma delLink_trace:
  "trace (snd (delLink c linkType field w)) =
     trace w @ (if field = [] then [] else [RedisDel (linkKey c linkType field)])"
  by (simp add: delLink_def redis_Del_trace)

lemma delLinks_trace: "trace (delLinks c m links w) = trace w @ link_del_calls c m links"
  by (induction links arbitrary: w) (auto simp add: link_del_calls_def delLink_trace)

lemma delLinks_cache_absent: "cache w k = None \<Longrightarrow> cache (delLinks c m links w) k = None"
  by (induction links arbitrary: w) (auto simp add: delLink_def redis_Del_cache_absent)

lemma deleteCache_success:
  "deleteCache c i w = (None, w') \<Longrightarrow>
     cache w' (cacheKey c i) = None \<and> trace w' = trace w @ [RedisDel (cacheKey c i)]"
  by (auto simp add: deleteCache_def redis_Del_def client_call_def
        split: list.splits option.splits)

lemma getLink_error_empty: "getLink c linkType field w = ((id0, Some e), w1) \<Longrightarrow> id0 = []"
  by (auto simp add: getLink_def redis_Get_def split: if_splits prod.splits option.splits)

section \<open>The four cache-mode mutations\<close>

lemma updateByIdR_shape: "updateByIdR c m i = invalidating (updateByIdM c m i) c m i"
  by (rule ext) (simp add: updateByIdR_def invalidating_def)

lemma saveByIdR_shape: "saveByIdR c m i = invalidating (saveByIdM c m i) c m i"
  by (rule ext) (simp add: saveByIdR_def invalidating_def)

lemma deleteByIdR_shape: "deleteByIdR c m i = invalidating (deleteByIdM c m i) c m i"
  by (rule ext) (simp add: deleteByIdR_def invalidating_def)

lemma softDeleteByIdR_shape: "softDeleteByIdR c m i = invalidating (softDeleteByIdM c m i) c m i"
  by (rule ext) (simp add: softDeleteByIdR_def invalidating_def)

lemma invalidating_result:
  assumes "\<And>w. fst (write w) = fst (client_call cl w)" "\<And>w. faults (snd (write w)) = tl (faults w)"
  shows "fst (invalidating write c m i w) =
     (case faults w of [] \<Rightarrow> None | Some e # fs \<Rightarrow> Some e
        | None # fs \<Rightarrow> (case fs of [] \<Rightarrow> None | f # fs' \<Rightarrow> f))"
proof -
  obtain r w1 where w1: "write w = (r, w1)" by (cases "write w")
  have r: "r = (case faults w of [] \<Rightarrow> None | f # fs \<Rightarrow> f)"
    using assms(1) [of w] w1 by (simp add: client_call_fst)
  have f1: "faults w1 = tl (faults w)"
    using assms(2) [of w] w1 by simp
  obtain r2 w2 where w2: "deleteCache c i w1 = (r2, w2)" by (cases "deleteCache c i w1")
  have r2: "r2 = (case faults w1 of [] \<Rightarrow> None | f # fs \<Rightarrow> f)"
    using w2 redis_Del_fails [of "cacheKey c i" w1] by (simp add: deleteCache_def client_call_fst)
  show ?thesis
    using w1 w2 r r2 f1
    by (auto simp add: invalidating_def split: list.splits option.splits)
qed

lemma invalidating_success:
  assumes "\<And>w. trace (snd (write w)) = trace w @ [cl]"
    and "invalidating write c m i w = (None, w')"
  shows "trace w' = trace w @ [cl, RedisDel (cacheKey c i)] @ link_del_calls c m (LinkMap c)
         \<and> cache w' (cacheKey c i) = None"
proof -
  obtain w1 where w1: "write w = (None, w1)"
    using assms(2) by (cases "write w") (auto simp add: invalidating_def split: option.splits)
  obtain w2 where w2: "deleteCache c i w1 = (None, w2)"
    using assms(2) w1
    by (cases "deleteCache c i w1") (auto simp add: invalidating_def split: option.splits)
  have w': "w' = delLinks c m (LinkMap c) w2"
    using assms(2) w1 w2 by (simp add: invalidating_def)
  have "trace w1 = trace w @ [cl]"
    using assms(1) [of w] w1 by simp
  then show ?thesis
    using deleteCache_success [OF w2] w'
    by (simp add: delLinks_trace delLinks_cache_absent)
qed

lemma invalidating_store_failure: "fst (write w) = Some e \<Longrightarrow> invalidating write c m i w = write w"
  by (cases "write w") (simp add: invalidating_def)

lemma step_results:
  "fst (updateByIdR c m i w) = first_two (faults w)"
  "fst (saveByIdR c m i w) = first_two (faults w)"
  "fst (deleteByIdR c m i w) = first_two (faults w)"
  "fst (softDeleteByIdR c m i w) = first_two (faults w)"
  unfolding updateByIdR_shape saveByIdR_shape deleteByIdR_shape softDeleteByIdR_shape first_two_def
  by (rule invalidating_result [where cl = "DbUpdates i"]
          invalidating_result [where cl = "DbSave i"]
          invalidating_result [where cl = "DbDelete i"]
          invalidating_result [where cl = "DbSoftDelete i"];
      simp add: updateByIdM_def saveByIdM_def deleteByIdM_def softDeleteByIdM_def
        db_write_fails db_write_faults)+

text \<open>
  When a cache-mode step returns no error, the store write was followed by the delete of
  the primary key and by the loop's deletes, and the primary entry is gone.
\<close>

lemma cache_mode_success_invalidates:
  "updateByIdR c m i w = (None, w') \<Longrightarrow>
     trace w' = trace w @ [DbUpdates i, RedisDel (cacheKey c i)] @ link_del_calls c m (LinkMap c)
     \<and> cache w' (cacheKey c i) = None"
  "saveByIdR c m i w = (None, w') \<Longrightarrow>
     trace w' = trace w @ [DbSave i, RedisDel (cacheKey c i)] @ link_del_calls c m (LinkMap c)
     \<and> cache w' (cacheKey c i) = None"
  "deleteByIdR c m i w = (None, w') \<Longrightarrow>
     trace w' = trace w @ [DbDelete i, RedisDel (cacheKey c i)] @ link_del_calls c m (LinkMap c)
     \<and> cache w' (cacheKey c i) = None"
  "softDeleteByIdR c m i w = (None, w') \<Longrightarrow>
     trace w' = trace w @ [DbSoftDelete i, RedisDel (cacheKey c i)] @ link_del_calls c m (LinkMap c)
     \<and> cache w' (cacheKey c i) = None"
  unfolding updateByIdR_shape saveByIdR_shape deleteByIdR_shape softDeleteByIdR_shape
  by (erule invalidating_success [rotated];
      simp add: updateByIdM_def saveByIdM_def deleteByIdM_def softDeleteByIdM_def db_write_trace)+

text \<open>When the store write fails, the step stops there: the cache is not touched.\<close>

lemma store_failure_leaves_cache:
  "fst (updateByIdM c m i w) = Some e \<Longrightarrow>
     updateByIdR c m i w = updateByIdM c m i w
     \<and> trace (snd (updateByIdR c m i w)) = trace w @ [DbUpdates i]
     \<and> cache (snd (updateByIdR c m i w)) = cache w"
  "fst (saveByIdM c m i w) = Some e \<Longrightarrow>
     saveByIdR c m i w = saveByIdM c m i w
     \<and> trace (snd (saveByIdR c m i w)) = trace w @ [DbSave i]
     \<and> cache (snd (saveByIdR c m i w)) = cache w"
  "fst (deleteByIdM c m i w) = Some e \<Longrightarrow>
     deleteByIdR c m i w = deleteByIdM c m i w
     \<and> trace (snd (deleteByIdR c m i w)) = trace w @ [DbDelete i]
     \<and> cache (snd (deleteByIdR c m i w)) = cache w"
  "fst (softDeleteByIdM c m i w) = Some e \<Longrightarrow>
     softDeleteByIdR c m i w = softDeleteByIdM c m i w
     \<and> trace (snd (softDeleteByIdR c m i w)) = trace w @ [DbSoftDelete i]
     \<and> cache (snd (softDeleteByIdR c m i w)) = cache w"
  unfolding updateByIdR_shape saveByIdR_shape deleteByIdR_shape softDeleteByIdR_shape
  by (simp_all add: invalidating_store_failure)
     (simp_all add: updateByIdM_def saveByIdM_def deleteByIdM_def softDeleteByIdM_def
        db_write_trace db_write_cache)

text \<open>
  A public mutation returns what \<open>hook\<close> returns: with no hook method on the Record
  that is \<open>nil\<close>, whatever the step returned.
\<close>

lemma mutation_without_hook_returns_nil:
  "methods m ''MfAfterUpdateById'' = None \<Longrightarrow> fst (UpdateById c m i w) = None"
  "methods m ''MfAfterSaveById'' = None \<Longrightarrow> fst (SaveById c m i w) = None"
  "methods m ''MfAfterDeleteById'' = None \<Longrightarrow> fst (DeleteById c m i w) = None"
  "methods m ''MfAfterSoftDeleteById'' = None \<Longrightarrow> fst (SoftDeleteById c m i w) = None"
  by (simp_all add: UpdateById_def SaveById_def DeleteById_def SoftDeleteById_def hook_def
        split: prod.splits)

text \<open>
  With the store write and the primary delete succeeding, each step sends the loop's
  deletes, whatever they return.
\<close>

lemma step_traces:
  "trace (snd (updateByIdR c m i (w\<lparr>faults := None # None # rest\<rparr>)))
     = trace w @ [DbUpdates i, RedisDel (cacheKey c i)] @ link_del_calls c m (LinkMap c)"
  "trace (snd (saveByIdR c m i (w\<lparr>faults := None # None # rest\<rparr>)))
     = trace w @ [DbSave i, RedisDel (cacheKey c i)] @ link_del_calls c m (LinkMap c)"
  "trace (snd (deleteByIdR c m i (w\<lparr>faults := None # None # rest\<rparr>)))
     = trace w @ [DbDelete i, RedisDel (cacheKey c i)] @ link_del_calls c m (LinkMap c)"
  "trace (snd (softDeleteByIdR c m i (w\<lparr>faults := None # None # rest\<rparr>)))
     = trace w @ [DbSoftDelete i, RedisDel (cacheKey c i)] @ link_del_calls c m (LinkMap c)"
proof -
  let ?w = "w\<lparr>faults := None # None # rest\<rparr>"
  have "fst (updateByIdR c m i ?w) = None"
    by (simp add: step_results first_two_def)
  then have "updateByIdR c m i ?w = (None, snd (updateByIdR c m i ?w))"
    by (metis prod.collapse)
  from cache_mode_success_invalidates(1) [OF this]
  show "trace (snd (updateByIdR c m i ?w))
     = trace w @ [DbUpdates i, RedisDel (cacheKey c i)] @ link_del_calls c m (LinkMap c)"
    by simp
  have "fst (saveByIdR c m i ?w) = None"
    by (simp add: step_results first_two_def)
  then have "saveByIdR c m i ?w = (None, snd (saveByIdR c m i ?w))"
    by (metis prod.collapse)
  from cache_mode_success_invalidates(2) [OF this]
  show "trace (snd (saveByIdR c m i ?w))
     = trace w @ [DbSave i, RedisDel (cacheKey c i)] @ link_del_calls c m (LinkMap c)"
    by simp
  have "fst (deleteByIdR c m i ?w) = None"
    by (simp add: step_results first_two_def)
  then have "deleteByIdR c m i ?w = (None, snd (deleteByIdR c m i ?w))"
    by (metis prod.collapse)
  from cache_mode_success_invalidates(3) [OF this]
  show "trace (snd (deleteByIdR c m i ?w))
     = trace w @ [DbDelete i, RedisDel (cacheKey c i)] @ link_del_calls c m (LinkMap c)"
    by simp
  have "fst (softDeleteByIdR c m i ?w) = None"
    by (simp add: step_results first_two_def)
  then have "softDeleteByIdR c m i ?w = (None, snd (softDeleteByIdR c m i ?w))"
    by (metis prod.collapse)
  from cache_mode_success_invalidates(4) [OF this]
  show "trace (snd (softDeleteByIdR c m i ?w))
     = trace w @ [DbSoftDelete i, RedisDel (cacheKey c i)] @ link_del_calls c m (LinkMap c)"
    by simp
qed

lemma link_del_calls_member:
  "(linkType, linkFunc) \<in> set links \<Longrightarrow> FieldValue linkFunc (val m) \<noteq> [] \<Longrightarrow>
     RedisDel (linkKey c linkType (FieldValue linkFunc (val m))) \<in> set (link_del_calls c m links)"
  by (force simp add: link_del_calls_def)

text \<open>A cached link that converts to an id above 0 is used as it is: no resolver call.\<close>

lemma FirstByLink_cached_link:
  "map_of (LinkMap c) linkType = Some fnd \<Longrightarrow>
   getLink c linkType field w = ((id0, gerr), w1) \<Longrightarrow> cast_ToUint64 id0 \<noteq> 0 \<Longrightarrow>
     FirstByLink c linkType m field w = FirstById c m (cast_ToUint64 id0) w1"
  by (simp add: FirstByLink_def word_greater_zero_iff)

text \<open>
  On the sample a cached link \<open>0x7\<close> converts to 7: row 7 is read although the
  resolver, which is not asked, would not have found the field.
\<close>

lemma FirstByLink_cached_hex_link:
  "fst (FirstByLink ex_conf ''email'' ex_blank ''x@y'' ex_hex_link) = None
   \<and> val (fst (snd (FirstByLink ex_conf ''email'' ex_blank ''x@y'' ex_hex_link))) = ex_row
   \<and> trace (snd (snd (FirstByLink ex_conf ''email'' ex_blank ''x@y'' ex_hex_link)))
       = [RedisGet ''app:email:x@y'', RedisGet ''app:id:7'', DbFirst 7,
          RedisSet ''app:id:7'' ''0|a@b'' 60000000000]"
  by (simp add: op_defs ex_defs FirstByLink_def)

section \<open>The claims\<close>

text \<open>
  Claim C1: for every cache-mode mutation, a successful store write is followed, before
  the operation returns success, by the deletion of the primary cache entry and by a
  link-cache delete for every registered linkType; a failed store write is followed by no
  cache deletion. This holds of the steps \<open>updateByIdR\<close>, \<open>saveByIdR\<close>,
  \<open>deleteByIdR\<close> and \<open>softDeleteByIdR\<close> (lemmas \<open>cache_mode_success_invalidates\<close>
  and \<open>store_failure_leaves_cache\<close>), but not of the public operations, which drop the
  step's error. Here the store write of \<open>UpdateById\<close> succeeds and the delete of the
  primary key fails: the operation returns \<open>nil\<close>, the entry is still cached and no
  link-cache delete was sent.
\<close>

theorem UpdateById_success_without_invalidation:
  "fst (updateByIdR ex_conf ex_model 7
          (ex_world\<lparr>cache := [''app:id:7'' \<mapsto> (''0|old'', 60000000000)],
                    faults := [None, Some (Failure ''connection refused'')]\<rparr>))
     = Some (Failure ''connection refused'')
   \<and> fst (UpdateById ex_conf ex_model 7
          (ex_world\<lparr>cache := [''app:id:7'' \<mapsto> (''0|old'', 60000000000)],
                    faults := [None, Some (Failure ''connection refused'')]\<rparr>)) = None
   \<and> trace (snd (snd (UpdateById ex_conf ex_model 7
          (ex_world\<lparr>cache := [''app:id:7'' \<mapsto> (''0|old'', 60000000000)],
                    faults := [None, Some (Failure ''connection refused'')]\<rparr>))))
       = [DbUpdates 7, RedisDel ''app:id:7'']
   \<and> cache (snd (snd (UpdateById ex_conf ex_model 7
          (ex_world\<lparr>cache := [''app:id:7'' \<mapsto> (''0|old'', 60000000000)],
                    faults := [None, Some (Failure ''connection refused'')]\<rparr>)))) ''app:id:7''
       = Some (''0|old'', 60000000000)"
  by (simp add: op_defs ex_defs)

text \<open>
  Claim C2: an error of the store or cache step of a mutation reaches the caller
  unchanged, in particular when the Record has no hook method. Here cache mode is off,
  the store write fails and the Record has no hook: \<open>updateByIdM\<close> returns the store's
  error and \<open>UpdateById\<close> returns \<open>nil\<close>.
\<close>

theorem UpdateById_drops_store_error:
  "fst (updateByIdM (ex_conf\<lparr>UseCache := False\<rparr>) ex_model 7
          (ex_world\<lparr>faults := [Some (Failure ''connection refused'')]\<rparr>))
     = Some (Failure ''connection refused'')
   \<and> fst (UpdateById (ex_conf\<lparr>UseCache := False\<rparr>) ex_model 7
          (ex_world\<lparr>faults := [Some (Failure ''connection refused'')]\<rparr>)) = None"
  by (simp add: op_defs ex_defs)

text \<open>
  Claim C3: with cache mode on, \<open>FirstById\<close> is read-through. Let the initial
  lookup of the primary key return the value \<open>res\<close> or the error \<open>gerr\<close>.
  \<^item> A hit: the cached value is deserialized into the Record and the call returns what
    \<open>json.Unmarshal\<close> returned (an error of its own, which is not \<open>redis.Nil\<close>, or
    \<open>nil\<close>); the lookup is the only client call.
  \<^item> The entry-absent error: the store is queried by id; its error is returned, or else
    the Record it filled is serialized and written under the primary key with the
    configured expiry, and the result of that write is returned.
  \<^item> Any other error of the lookup is returned, after no other client call.
\<close>

theorem FirstById_read_through:
  assumes "UseCache c" and "redis_Get (cacheKey c i) w = ((res, gerr), w1)"
  shows "(gerr = None \<and> \<not> ErrIsRedisNil (fst (json_Unmarshal m res (val m))) \<longrightarrow>
            FirstById c m i w =
              (fst (json_Unmarshal m res (val m)),
               m\<lparr>val := snd (json_Unmarshal m res (val m))\<rparr>, w1)
            \<and> trace w1 = trace w @ [RedisGet (cacheKey c i)])
       \<and> (ErrIsRedisNil gerr \<longrightarrow>
            FirstById c m i w =
              (case db_read (DbFirst i) i (\<lambda>r. True) w1 of
                 (Inl e, w2) \<Rightarrow> (Some e, m, w2)
               | (Inr r, w2) \<Rightarrow>
                   (case redis_Set (cacheKey c i) (json_Marshal m r) (Expire c) w2 of
                      (err, w3) \<Rightarrow> (err, m\<lparr>val := r\<rparr>, w3))))
       \<and> (gerr \<noteq> None \<and> \<not> ErrIsRedisNil gerr \<longrightarrow>
            FirstById c m i w = (gerr, m, w1)
            \<and> trace w1 = trace w @ [RedisGet (cacheKey c i)])"
proof -
  have tr: "trace w1 = trace w @ [RedisGet (cacheKey c i)]"
    using redis_Get_trace [of "cacheKey c i" w] assms(2) by simp
  have hit: "FirstById c m i w =
              (fst (json_Unmarshal m res (val m)),
               m\<lparr>val := snd (json_Unmarshal m res (val m))\<rparr>, w1)"
    if "gerr = None" "\<not> ErrIsRedisNil (fst (json_Unmarshal m res (val m)))"
    using that assms
    by (cases "json_Unmarshal m res (val m)")
       (auto simp add: FirstById_def firstByIdR_def getCache_def ErrIsRedisNil_def
          split: option.splits)
  have miss: "FirstById c m i w =
              (case db_read (DbFirst i) i (\<lambda>r. True) w1 of
                 (Inl e, w2) \<Rightarrow> (Some e, m, w2)
               | (Inr r, w2) \<Rightarrow>
                   (case redis_Set (cacheKey c i) (json_Marshal m r) (Expire c) w2 of
                      (err, w3) \<Rightarrow> (err, m\<lparr>val := r\<rparr>, w3)))"
    if "ErrIsRedisNil gerr"
    using that assms
    by (auto simp add: FirstById_def firstByIdR_def getCache_def firstByIdM_def updateCache_def
          ErrIsRedisNil_def split: option.splits prod.splits sum.splits)
  have other: "FirstById c m i w = (gerr, m, w1)" if "gerr \<noteq> None" "\<not> ErrIsRedisNil gerr"
    using that assms
    by (auto simp add: FirstById_def firstByIdR_def getCache_def ErrIsRedisNil_def
          split: option.splits)
  show ?thesis
    using tr hit miss other by blast
qed

theorem FirstById_read_through_witness:
  "fst (FirstById ex_conf ex_blank 7 ex_hit) = None
   \<and> val (fst (snd (FirstById ex_conf ex_blank 7 ex_hit))) = ex_row
   \<and> trace (snd (snd (FirstById ex_conf ex_blank 7 ex_hit))) = [RedisGet ''app:id:7'']
   \<and> fst (FirstById ex_conf ex_blank 7 ex_world) = None
   \<and> val (fst (snd (FirstById ex_conf ex_blank 7 ex_world))) = ex_row
   \<and> trace (snd (snd (FirstById ex_conf ex_blank 7 ex_world)))
       = [RedisGet ''app:id:7'', DbFirst 7, RedisSet ''app:id:7'' ''0|a@b'' 60000000000]
   \<and> cache (snd (snd (FirstById ex_conf ex_blank 7 ex_world))) ''app:id:7''
       = Some (''0|a@b'', 60000000000)
   \<and> fst (FirstById ex_conf ex_blank 7 ex_down) = Some (Failure ''connection refused'')
   \<and> trace (snd (snd (FirstById ex_conf ex_blank 7 ex_down))) = [RedisGet ''app:id:7'']"
  using
    FirstById_read_through [of ex_conf 7 ex_hit
      "fst (fst (redis_Get (cacheKey ex_conf 7) ex_hit))"
      "snd (fst (redis_Get (cacheKey ex_conf 7) ex_hit))"
      "snd (redis_Get (cacheKey ex_conf 7) ex_hit)" ex_blank]
    FirstById_read_through [of ex_conf 7 ex_world
      "fst (fst (redis_Get (cacheKey ex_conf 7) ex_world))"
      "snd (fst (redis_Get (cacheKey ex_conf 7) ex_world))"
      "snd (redis_Get (cacheKey ex_conf 7) ex_world)" ex_blank]
    FirstById_read_through [of ex_conf 7 ex_down
      "fst (fst (redis_Get (cacheKey ex_conf 7) ex_down))"
      "snd (fst (redis_Get (cacheKey ex_conf 7) ex_down))"
      "snd (redis_Get (cacheKey ex_conf 7) ex_down)" ex_blank]
  by (simp add: op_defs ex_defs)

text \<open>
  Claim C4: when the Record has the hook method of a mutation and the hook returns an
  error, the mutation returns that error, whatever its store and cache step returned.
\<close>

theorem hook_error_supersedes:
  "(methods m ''MfAfterUpdateById'' = Some h
      \<and> fst (h (val m) (snd (if UseCache c then updateByIdR c m i w else updateByIdM c m i w)))
          = RetError e
      \<longrightarrow> fst (UpdateById c m i w) = Some e)
   \<and> (methods m ''MfAfterSaveById'' = Some h
      \<and> fst (h (val m) (snd (if UseCache c then saveByIdR c m i w else saveByIdM c m i w)))
          = RetError e
      \<longrightarrow> fst (SaveById c m i w) = Some e)
   \<and> (methods m ''MfAfterDeleteById'' = Some h
      \<and> fst (h (val m) (snd (if UseCache c then deleteByIdR c m i w else deleteByIdM c m i w)))
          = RetError e
      \<longrightarrow> fst (DeleteById c m i w) = Some e)
   \<and> (methods m ''MfAfterSoftDeleteById'' = Some h
      \<and> fst (h (val m)
               (snd (if UseCache c then softDeleteByIdR c m i w else softDeleteByIdM c m i w)))
          = RetError e
      \<longrightarrow> fst (SoftDeleteById c m i w) = Some e)"
  by (auto simp add: UpdateById_def SaveById_def DeleteById_def SoftDeleteById_def hook_def
        split: prod.splits hook_ret.splits)

text \<open>
  On the sample: the step of \<open>UpdateById\<close> fails and the step of \<open>DeleteById\<close>
  succeeds; both operations return the hook's error.
\<close>

theorem hook_error_supersedes_witness:
  "fst (updateByIdR ex_conf ex_hooked 7 ex_down) = Some (Failure ''connection refused'')
   \<and> fst (UpdateById ex_conf ex_hooked 7 ex_down) = Some (Failure ''hook'')
   \<and> fst (SaveById ex_conf ex_hooked 7 ex_down) = Some (Failure ''hook'')
   \<and> fst (deleteByIdR ex_conf ex_hooked 7 ex_world) = None
   \<and> fst (DeleteById ex_conf ex_hooked 7 ex_world) = Some (Failure ''hook'')
   \<and> fst (SoftDeleteById ex_conf ex_hooked 7 ex_world) = Some (Failure ''hook'')"
  using
    hook_error_supersedes [of ex_hooked "\<lambda>r w. (RetError (Failure ''hook''), r, w)"
      ex_conf 7 ex_down "Failure ''hook''"]
    hook_error_supersedes [of ex_hooked "\<lambda>r w. (RetError (Failure ''hook''), r, w)"
      ex_conf 7 ex_world "Failure ''hook''"]
  by (simp add: op_defs ex_defs)

text \<open>
  Claim C5: the store query of \<open>FirstByIdSD\<close> matches only rows whose soft-delete
  marker is the zero time, but the operation reads and writes the primary cache key of
  \<open>FirstById\<close>: on a cache hit it does what \<open>FirstById\<close> does and returns the
  cached copy, with no look at the marker.
  \<^item> The query \<open>firstByIdFilterSoftDelM\<close>, when the store answers: a row with the
    zero time is found, a row with another marker is \<open>ErrRecordNotFound\<close>.
  \<^item> Cache mode off: \<open>FirstByIdSD\<close> is that query; it fills the Record from a live
    row and returns \<open>ErrRecordNotFound\<close>, the Record untouched, for a soft-deleted one.
  \<^item> Cache mode on, a hit: the same result as \<open>FirstById\<close>, the cached copy, and no
    store call.
  \<^item> Cache mode on, the entry absent: the filtered query; a soft-deleted row is
    \<open>ErrRecordNotFound\<close> and nothing is cached, a live row is written under the
    primary key of \<open>FirstById\<close>.
\<close>

theorem FirstByIdSD_cache_hit_unfiltered:
  "(fst (client_call (DbFirstSD i) w) = None \<and> rows w i = Some r \<longrightarrow>
      fst (firstByIdFilterSoftDelM c m i w)
        = (if deleted_at r = 0 then None else Some ErrRecordNotFound))
   \<and> (\<not> UseCache c \<and> fst (client_call (DbFirstSD i) w) = None \<and> rows w i = Some r \<longrightarrow>
      FirstByIdSD c m i w =
        (if deleted_at r = 0 then (None, m\<lparr>val := r\<rparr>, snd (client_call (DbFirstSD i) w))
         else (Some ErrRecordNotFound, m, snd (client_call (DbFirstSD i) w))))
   \<and> (UseCache c \<and> redis_Get (cacheKey c i) w = ((res, None), w1)
        \<and> \<not> ErrIsRedisNil (fst (json_Unmarshal m res (val m))) \<longrightarrow>
      FirstByIdSD c m i w = FirstById c m i w
      \<and> FirstByIdSD c m i w =
          (fst (json_Unmarshal m res (val m)), m\<lparr>val := snd (json_Unmarshal m res (val m))\<rparr>, w1)
      \<and> trace w1 = trace w @ [RedisGet (cacheKey c i)])
   \<and> (UseCache c \<and> redis_Get (cacheKey c i) w = ((res, gerr), w1) \<and> ErrIsRedisNil gerr \<longrightarrow>
      FirstByIdSD c m i w =
        (case db_read (DbFirstSD i) i (\<lambda>r. deleted_at r = 0) w1 of
           (Inl e, w2) \<Rightarrow> (Some e, m, w2)
         | (Inr r, w2) \<Rightarrow>
             (case redis_Set (cacheKey c i) (json_Marshal m r) (Expire c) w2 of
                (err, w3) \<Rightarrow> (err, m\<lparr>val := r\<rparr>, w3))))
   \<and> (UseCache c \<and> redis_Get (cacheKey c i) w = ((res, gerr), w1) \<and> ErrIsRedisNil gerr
        \<and> fst (client_call (DbFirstSD i) w1) = None \<and> rows w1 i = Some r
        \<and> deleted_at r \<noteq> 0 \<longrightarrow>
      FirstByIdSD c m i w = (Some ErrRecordNotFound, m, snd (client_call (DbFirstSD i) w1)))"
proof -
  have query: "fst (firstByIdFilterSoftDelM c m i w)
        = (if deleted_at r = 0 then None else Some ErrRecordNotFound)"
    if "fst (client_call (DbFirstSD i) w) = None" "rows w i = Some r"
    using that
    by (auto simp add: firstByIdFilterSoftDelM_def db_read_def client_call_def
          split: prod.splits option.splits list.splits sum.splits)
  have off: "FirstByIdSD c m i w =
        (if deleted_at r = 0 then (None, m\<lparr>val := r\<rparr>, snd (client_call (DbFirstSD i) w))
         else (Some ErrRecordNotFound, m, snd (client_call (DbFirstSD i) w)))"
    if "\<not> UseCache c" "fst (client_call (DbFirstSD i) w) = None" "rows w i = Some r"
    using that
    by (auto simp add: FirstByIdSD_def firstByIdFilterSoftDelM_def db_read_def client_call_def
          split: prod.splits option.splits list.splits sum.splits)
  have hit: "FirstByIdSD c m i w = FirstById c m i w
      \<and> FirstByIdSD c m i w =
          (fst (json_Unmarshal m res (val m)), m\<lparr>val := snd (json_Unmarshal m res (val m))\<rparr>, w1)
      \<and> trace w1 = trace w @ [RedisGet (cacheKey c i)]"
    if "UseCache c" "redis_Get (cacheKey c i) w = ((res, None), w1)"
      "\<not> ErrIsRedisNil (fst (json_Unmarshal m res (val m)))"
    using that redis_Get_trace [of "cacheKey c i" w]
    by (cases "json_Unmarshal m res (val m)")
       (auto simp add: FirstByIdSD_def FirstById_def firstByIdFilterSoftDelR_def firstByIdR_def
          getCache_def ErrIsRedisNil_def split: option.splits)
  have miss: "FirstByIdSD c m i w =
        (case db_read (DbFirstSD i) i (\<lambda>r. deleted_at r = 0) w1 of
           (Inl e, w2) \<Rightarrow> (Some e, m, w2)
         | (Inr r, w2) \<Rightarrow>
             (case redis_Set (cacheKey c i) (json_Marshal m r) (Expire c) w2 of
                (err, w3) \<Rightarrow> (err, m\<lparr>val := r\<rparr>, w3)))"
    if "UseCache c" "redis_Get (cacheKey c i) w = ((res, gerr), w1)" "ErrIsRedisNil gerr"
    using that
    by (auto simp add: FirstByIdSD_def firstByIdFilterSoftDelR_def getCache_def
          firstByIdFilterSoftDelM_def updateCache_def ErrIsRedisNil_def
          split: option.splits prod.splits sum.splits)
  have gone: "FirstByIdSD c m i w
        = (Some ErrRecordNotFound, m, snd (client_call (DbFirstSD i) w1))"
    if "UseCache c" "redis_Get (cacheKey c i) w = ((res, gerr), w1)" "ErrIsRedisNil gerr"
      "fst (client_call (DbFirstSD i) w1) = None" "rows w1 i = Some r" "deleted_at r \<noteq> 0"
    using miss [OF that(1-3)] that(4-6)
    by (auto simp add: db_read_def client_call_def split: list.splits option.splits)
  show ?thesis
    using query off hit miss gone by blast
qed

text \<open>
  On the sample, row 7 is soft-deleted. With cache mode off \<open>FirstByIdSD\<close> does not
  find it (and finds it while it is live); with cache mode on and an empty cache it does
  not find it either and caches nothing; with a copy cached before the deletion it
  returns that copy.
\<close>

theorem FirstByIdSD_cache_hit_unfiltered_witness:
  "fst (firstByIdFilterSoftDelM ex_conf ex_blank 7 ex_stale) = Some ErrRecordNotFound
   \<and> fst (FirstByIdSD (ex_conf\<lparr>UseCache := False\<rparr>) ex_blank 7 ex_gone)
        = Some ErrRecordNotFound
   \<and> val (fst (snd (FirstByIdSD (ex_conf\<lparr>UseCache := False\<rparr>) ex_blank 7 ex_gone)))
        = val ex_blank
   \<and> trace (snd (snd (FirstByIdSD (ex_conf\<lparr>UseCache := False\<rparr>) ex_blank 7 ex_gone)))
        = [DbFirstSD 7]
   \<and> fst (FirstByIdSD (ex_conf\<lparr>UseCache := False\<rparr>) ex_blank 7 ex_world) = None
   \<and> val (fst (snd (FirstByIdSD (ex_conf\<lparr>UseCache := False\<rparr>) ex_blank 7 ex_world)))
        = ex_row
   \<and> fst (FirstById (ex_conf\<lparr>UseCache := False\<rparr>) ex_blank 7 ex_gone) = None
   \<and> fst (FirstByIdSD ex_conf ex_blank 7 ex_gone) = Some ErrRecordNotFound
   \<and> trace (snd (snd (FirstByIdSD ex_conf ex_blank 7 ex_gone)))
        = [RedisGet ''app:id:7'', DbFirstSD 7]
   \<and> fst (FirstByIdSD ex_conf ex_blank 7 ex_stale) = None
   \<and> val (fst (snd (FirstByIdSD ex_conf ex_blank 7 ex_stale))) = ex_row
   \<and> trace (snd (snd (FirstByIdSD ex_conf ex_blank 7 ex_stale))) = [RedisGet ''app:id:7'']
   \<and> FirstByIdSD ex_conf ex_blank 7 ex_stale = FirstById ex_conf ex_blank 7 ex_stale"
  using
    FirstByIdSD_cache_hit_unfiltered [where i = 7 and w = ex_stale
      and r = "ex_row\<lparr>deleted_at := 99\<rparr>" and c = ex_conf and m = ex_blank
      and res = "fst (fst (redis_Get (cacheKey ex_conf 7) ex_stale))"
      and ?w1.0 = "snd (redis_Get (cacheKey ex_conf 7) ex_stale)"
      and gerr = "snd (fst (redis_Get (cacheKey ex_conf 7) ex_stale))"]
    FirstByIdSD_cache_hit_unfiltered [where i = 7 and w = ex_gone
      and r = "ex_row\<lparr>deleted_at := 99\<rparr>" and c = ex_conf and m = ex_blank
      and res = "fst (fst (redis_Get (cacheKey ex_conf 7) ex_gone))"
      and ?w1.0 = "snd (redis_Get (cacheKey ex_conf 7) ex_gone)"
      and gerr = "snd (fst (redis_Get (cacheKey ex_conf 7) ex_gone))"]
    FirstByIdSD_cache_hit_unfiltered [where i = 7 and w = ex_gone
      and r = "ex_row\<lparr>deleted_at := 99\<rparr>" and c = "ex_conf\<lparr>UseCache := False\<rparr>"
      and m = ex_blank
      and res = "[]" and ?w1.0 = ex_gone and gerr = None]
    FirstByIdSD_cache_hit_unfiltered [where i = 7 and w = ex_world
      and r = ex_row and c = "ex_conf\<lparr>UseCache := False\<rparr>" and m = ex_blank
      and res = "[]" and ?w1.0 = ex_world and gerr = None]
  by (simp add: op_defs ex_defs)

text \<open>
  Claim C6: \<open>FirstByLinkSD\<close> does on every input what \<open>FirstByLink\<close> does; it
  ends in \<open>FirstById\<close> and filters no soft-deleted row.
\<close>

theorem FirstByLinkSD_is_FirstByLink:
  "FirstByLinkSD c linkType m field w = FirstByLink c linkType m field w"
  by (simp add: FirstByLinkSD_def FirstByLink_def)

text \<open>
  On the sample with row 7 soft-deleted, \<open>FirstByLinkSD\<close> returns the row that
  \<open>FirstByIdSD\<close> refuses.
\<close>

theorem FirstByLinkSD_is_FirstByLink_witness:
  "FirstByLinkSD ex_conf ''email'' ex_blank ''a@b'' ex_world
     = FirstByLink ex_conf ''email'' ex_blank ''a@b'' ex_world
   \<and> fst (FirstByLinkSD ex_conf ''email'' ex_blank ''a@b'' ex_gone) = None
   \<and> deleted_at (val (fst (snd (FirstByLinkSD ex_conf ''email'' ex_blank ''a@b'' ex_gone)))) = 99
   \<and> fst (FirstByIdSD ex_conf ex_blank 7 ex_gone) = Some ErrRecordNotFound"
  using FirstByLinkSD_is_FirstByLink [of ex_conf "''email''" ex_blank "''a@b''" ex_world]
    FirstByLinkSD_is_FirstByLink [of ex_conf "''email''" ex_blank "''a@b''" ex_gone]
  by (simp add: op_defs ex_defs FirstByLink_def)

text \<open>
  Claim C7: \<open>FirstByLink\<close> with a registered linkType and no usable cached link (the
  lookup failed or found nothing, or \<open>cast.ToUint64\<close> makes 0 of the cached string)
  calls the resolver's \<open>Find\<close>. When \<open>Find\<close> returns
  an id above 0 and no error, \<open>createLink\<close> runs first: its error is returned, or else
  the link entry is in the cache (the id in decimal, for 7 days) and the call continues as
  \<open>FirstById\<close> with that id. When \<open>Find\<close> returns 0 and no error, the call returns
  success and the Record is as it was.
\<close>

theorem FirstByLink_resolver:
  assumes "map_of (LinkMap c) linkType = Some fnd"
    and "getLink c linkType field w = ((id0, gerr), w1)"
    and "cast_ToUint64 id0 = 0"
    and "Find fnd (rows w1) field = (idInt, None)"
  shows "(idInt > 0 \<longrightarrow>
            FirstByLink c linkType m field w =
              (case createLink c idInt linkType field
                      (w1\<lparr>trace := trace w1 @ [ResolverFind linkType field]\<rparr>) of
                 (Some e, w3) \<Rightarrow> (Some e, m, w3)
               | (None, w3) \<Rightarrow> FirstById c m idInt w3))
       \<and> (idInt > 0
            \<and> createLink c idInt linkType field
                 (w1\<lparr>trace := trace w1 @ [ResolverFind linkType field]\<rparr>) = (None, w3) \<longrightarrow>
            cache w3 (linkKey c linkType field) = Some (cast_ToString idInt, Hour * 24 * 7)
            \<and> trace w3 = trace w1 @ [ResolverFind linkType field,
                 RedisSet (linkKey c linkType field) (cast_ToString idInt) (Hour * 24 * 7)])
       \<and> (idInt = 0 \<longrightarrow>
            FirstByLink c linkType m field w =
              (None, m, w1\<lparr>trace := trace w1 @ [ResolverFind linkType field]\<rparr>))"
proof -
  have found: "FirstByLink c linkType m field w =
              (case createLink c idInt linkType field
                      (w1\<lparr>trace := trace w1 @ [ResolverFind linkType field]\<rparr>) of
                 (Some e, w3) \<Rightarrow> (Some e, m, w3)
               | (None, w3) \<Rightarrow> FirstById c m idInt w3)"
    if "idInt > 0"
    using that assms
    by (auto simp add: FirstByLink_def Let_def cast_roundtrip word_greater_zero_iff
          split: prod.splits option.splits)
  have created: "cache w3 (linkKey c linkType field) = Some (cast_ToString idInt, Hour * 24 * 7)
            \<and> trace w3 = trace w1 @ [ResolverFind linkType field,
                 RedisSet (linkKey c linkType field) (cast_ToString idInt) (Hour * 24 * 7)]"
    if "createLink c idInt linkType field
          (w1\<lparr>trace := trace w1 @ [ResolverFind linkType field]\<rparr>) = (None, w3)"
    using that
    by (auto simp add: createLink_def redis_Set_def client_call_def
          split: if_splits list.splits option.splits)
  have absent: "FirstByLink c linkType m field w =
              (None, m, w1\<lparr>trace := trace w1 @ [ResolverFind linkType field]\<rparr>)"
    if "idInt = 0"
    using that assms
    by (auto simp add: FirstByLink_def Let_def split: prod.splits option.splits)
  show ?thesis
    using found created absent by blast
qed

text \<open>
  On the sample: nothing is cached and the resolver knows the field; nothing is cached and
  the resolver returns 0; the cached link is \<open>08\<close>, which does not convert, so the
  resolver is asked and the entry rewritten.
\<close>

theorem FirstByLink_resolver_witness:
  "fst (FirstByLink ex_conf ''email'' ex_blank ''a@b'' ex_world) = None
   \<and> val (fst (snd (FirstByLink ex_conf ''email'' ex_blank ''a@b'' ex_world))) = ex_row
   \<and> trace (snd (snd (FirstByLink ex_conf ''email'' ex_blank ''a@b'' ex_world)))
       = [RedisGet ''app:email:a@b'', ResolverFind ''email'' ''a@b'',
          RedisSet ''app:email:a@b'' ''7'' 604800000000000,
          RedisGet ''app:id:7'', DbFirst 7, RedisSet ''app:id:7'' ''0|a@b'' 60000000000]
   \<and> fst (FirstByLink ex_conf ''email'' ex_blank ''x@y'' ex_world) = None
   \<and> val (fst (snd (FirstByLink ex_conf ''email'' ex_blank ''x@y'' ex_world))) = val ex_blank
   \<and> trace (snd (snd (FirstByLink ex_conf ''email'' ex_blank ''x@y'' ex_world)))
       = [RedisGet ''app:email:x@y'', ResolverFind ''email'' ''x@y'']
   \<and> fst (fst (getLink ex_conf ''email'' ''a@b'' ex_bad_link)) = ''08''
   \<and> trace (snd (snd (FirstByLink ex_conf ''email'' ex_blank ''a@b'' ex_bad_link)))
       = [RedisGet ''app:email:a@b'', ResolverFind ''email'' ''a@b'',
          RedisSet ''app:email:a@b'' ''7'' 604800000000000,
          RedisGet ''app:id:7'', DbFirst 7, RedisSet ''app:id:7'' ''0|a@b'' 60000000000]
   \<and> cache (snd (snd (FirstByLink ex_conf ''email'' ex_blank ''a@b'' ex_bad_link)))
        ''app:email:a@b'' = Some (''7'', 604800000000000)"
  using
    FirstByLink_resolver [where c = ex_conf and linkType = "''email''" and fnd = ex_finder
      and field = "''a@b''" and w = ex_world and m = ex_blank and idInt = 7
      and ?id0.0 = "fst (fst (getLink ex_conf ''email'' ''a@b'' ex_world))"
      and gerr = "snd (fst (getLink ex_conf ''email'' ''a@b'' ex_world))"
      and ?w1.0 = "snd (getLink ex_conf ''email'' ''a@b'' ex_world)"
      and ?w3.0 = "snd (createLink ex_conf 7 ''email'' ''a@b''
         ((snd (getLink ex_conf ''email'' ''a@b'' ex_world))
            \<lparr>trace := trace (snd (getLink ex_conf ''email'' ''a@b'' ex_world))
                        @ [ResolverFind ''email'' ''a@b'']\<rparr>))"]
    FirstByLink_resolver [where c = ex_conf and linkType = "''email''" and fnd = ex_finder
      and field = "''x@y''" and w = ex_world and m = ex_blank and idInt = 0
      and ?id0.0 = "fst (fst (getLink ex_conf ''email'' ''x@y'' ex_world))"
      and gerr = "snd (fst (getLink ex_conf ''email'' ''x@y'' ex_world))"
      and ?w1.0 = "snd (getLink ex_conf ''email'' ''x@y'' ex_world)"
      and ?w3.0 = ex_world]
    FirstByLink_resolver [where c = ex_conf and linkType = "''email''" and fnd = ex_finder
      and field = "''a@b''" and w = ex_bad_link and m = ex_blank and idInt = 7
      and ?id0.0 = "fst (fst (getLink ex_conf ''email'' ''a@b'' ex_bad_link))"
      and gerr = "snd (fst (getLink ex_conf ''email'' ''a@b'' ex_bad_link))"
      and ?w1.0 = "snd (getLink ex_conf ''email'' ''a@b'' ex_bad_link)"
      and ?w3.0 = "snd (createLink ex_conf 7 ''email'' ''a@b''
         ((snd (getLink ex_conf ''email'' ''a@b'' ex_bad_link))
            \<lparr>trace := trace (snd (getLink ex_conf ''email'' ''a@b'' ex_bad_link))
                        @ [ResolverFind ''email'' ''a@b'']\<rparr>))"]
  by (simp add: op_defs ex_defs FirstByLink_def)

text \<open>
  Claim C8: in the loop of the cache-mode mutations the error of each \<open>delLink\<close> is
  dropped, and the loop goes through the whole registry.
  \<^item> Whatever the link-cache deletes return (\<open>rest\<close>, after the outcomes \<open>f1\<close> of
    the store write and \<open>f2\<close> of the primary delete), each of the four steps returns
    the same.
  \<^item> When the store write and the primary delete succeed, each of the four steps
    returns no error and has sent, after those two calls, the deletes of the loop,
    whatever they returned.
  \<^item> The deletes of the loop are those of \<open>link_del_calls\<close>: one for every registered
    linkType whose field value is not empty (for an empty one \<open>delLink\<close> returns its
    own error, which is dropped as well, and the loop goes on).
\<close>

theorem link_delete_errors_discarded:
  "fst (updateByIdR c m i (w\<lparr>faults := [f1, f2] @ rest\<rparr>)) = fst (updateByIdR c m i (w\<lparr>faults := [f1, f2]\<rparr>))
   \<and> fst (saveByIdR c m i (w\<lparr>faults := [f1, f2] @ rest\<rparr>)) = fst (saveByIdR c m i (w\<lparr>faults := [f1, f2]\<rparr>))
   \<and> fst (deleteByIdR c m i (w\<lparr>faults := [f1, f2] @ rest\<rparr>)) = fst (deleteByIdR c m i (w\<lparr>faults := [f1, f2]\<rparr>))
   \<and> fst (softDeleteByIdR c m i (w\<lparr>faults := [f1, f2] @ rest\<rparr>)) = fst (softDeleteByIdR c m i (w\<lparr>faults := [f1, f2]\<rparr>))
   \<and> fst (updateByIdR c m i (w\<lparr>faults := [None, None] @ rest\<rparr>)) = None
   \<and> trace (snd (updateByIdR c m i (w\<lparr>faults := [None, None] @ rest\<rparr>)))
       = trace w @ [DbUpdates i, RedisDel (cacheKey c i)] @ link_del_calls c m (LinkMap c)
   \<and> fst (saveByIdR c m i (w\<lparr>faults := [None, None] @ rest\<rparr>)) = None
   \<and> trace (snd (saveByIdR c m i (w\<lparr>faults := [None, None] @ rest\<rparr>)))
       = trace w @ [DbSave i, RedisDel (cacheKey c i)] @ link_del_calls c m (LinkMap c)
   \<and> fst (deleteByIdR c m i (w\<lparr>faults := [None, None] @ rest\<rparr>)) = None
   \<and> trace (snd (deleteByIdR c m i (w\<lparr>faults := [None, None] @ rest\<rparr>)))
       = trace w @ [DbDelete i, RedisDel (cacheKey c i)] @ link_del_calls c m (LinkMap c)
   \<and> fst (softDeleteByIdR c m i (w\<lparr>faults := [None, None] @ rest\<rparr>)) = None
   \<and> trace (snd (softDeleteByIdR c m i (w\<lparr>faults := [None, None] @ rest\<rparr>)))
       = trace w @ [DbSoftDelete i, RedisDel (cacheKey c i)] @ link_del_calls c m (LinkMap c)
   \<and> trace (delLinks c m (LinkMap c) w) = trace w @ link_del_calls c m (LinkMap c)
   \<and> (\<forall>(linkType, linkFunc) \<in> set (LinkMap c).
         FieldValue linkFunc (val m) \<noteq> [] \<longrightarrow>
         RedisDel (linkKey c linkType (FieldValue linkFunc (val m)))
           \<in> set (link_del_calls c m (LinkMap c)))"
proof -
  have results:
    "fst (updateByIdR c m i (w\<lparr>faults := [f1, f2] @ rest\<rparr>)) = fst (updateByIdR c m i (w\<lparr>faults := [f1, f2]\<rparr>))"
    "fst (saveByIdR c m i (w\<lparr>faults := [f1, f2] @ rest\<rparr>)) = fst (saveByIdR c m i (w\<lparr>faults := [f1, f2]\<rparr>))"
    "fst (deleteByIdR c m i (w\<lparr>faults := [f1, f2] @ rest\<rparr>)) = fst (deleteByIdR c m i (w\<lparr>faults := [f1, f2]\<rparr>))"
    "fst (softDeleteByIdR c m i (w\<lparr>faults := [f1, f2] @ rest\<rparr>)) = fst (softDeleteByIdR c m i (w\<lparr>faults := [f1, f2]\<rparr>))"
    by (simp_all add: step_results first_two_def split: option.splits)
  have succeed:
    "fst (updateByIdR c m i (w\<lparr>faults := [None, None] @ rest\<rparr>)) = None"
    "fst (saveByIdR c m i (w\<lparr>faults := [None, None] @ rest\<rparr>)) = None"
    "fst (deleteByIdR c m i (w\<lparr>faults := [None, None] @ rest\<rparr>)) = None"
    "fst (softDeleteByIdR c m i (w\<lparr>faults := [None, None] @ rest\<rparr>)) = None"
    by (simp_all add: step_results first_two_def)
  have traces:
    "trace (snd (updateByIdR c m i (w\<lparr>faults := [None, None] @ rest\<rparr>)))
       = trace w @ [DbUpdates i, RedisDel (cacheKey c i)] @ link_del_calls c m (LinkMap c)"
    "trace (snd (saveByIdR c m i (w\<lparr>faults := [None, None] @ rest\<rparr>)))
       = trace w @ [DbSave i, RedisDel (cacheKey c i)] @ link_del_calls c m (LinkMap c)"
    "trace (snd (deleteByIdR c m i (w\<lparr>faults := [None, None] @ rest\<rparr>)))
       = trace w @ [DbDelete i, RedisDel (cacheKey c i)] @ link_del_calls c m (LinkMap c)"
    "trace (snd (softDeleteByIdR c m i (w\<lparr>faults := [None, None] @ rest\<rparr>)))
       = trace w @ [DbSoftDelete i, RedisDel (cacheKey c i)] @ link_del_calls c m (LinkMap c)"
    using step_traces [where c = c and m = m and i = i and w = w and rest = rest]
    by simp_all
  have members: "\<forall>(linkType, linkFunc) \<in> set (LinkMap c).
         FieldValue linkFunc (val m) \<noteq> [] \<longrightarrow>
         RedisDel (linkKey c linkType (FieldValue linkFunc (val m)))
           \<in> set (link_del_calls c m (LinkMap c))"
    using link_del_calls_member [of _ _ "LinkMap c" m c] by blast
  show ?thesis
    using results succeed traces members delLinks_trace [of c m "LinkMap c" w]
    by (intro conjI) assumption+
qed

text \<open>
  On a registry of three linkTypes, the first link-cache delete failing and the second
  linkType having an empty field value, the third is still deleted and each of the four
  steps succeeds.
\<close>

theorem link_delete_errors_discarded_witness:
  "fst (updateByIdR ex_two_links ex_model 7
          (ex_world\<lparr>faults := [None, None] @ [Some (Failure ''timeout''), None]\<rparr>)) = None
   \<and> fst (updateByIdR ex_two_links ex_model 7 (ex_world\<lparr>faults := [None, None]\<rparr>)) = None
   \<and> trace (snd (updateByIdR ex_two_links ex_model 7
          (ex_world\<lparr>faults := [None, None] @ [Some (Failure ''timeout''), None]\<rparr>)))
      = [DbUpdates 7, RedisDel ''app:id:7'', RedisDel ''app:email:a@b'', RedisDel ''app:mail2:a@b'']
   \<and> trace (snd (saveByIdR ex_two_links ex_model 7
          (ex_world\<lparr>faults := [None, None] @ [Some (Failure ''timeout''), None]\<rparr>)))
      = [DbSave 7, RedisDel ''app:id:7'', RedisDel ''app:email:a@b'', RedisDel ''app:mail2:a@b'']
   \<and> trace (snd (deleteByIdR ex_two_links ex_model 7
          (ex_world\<lparr>faults := [None, None] @ [Some (Failure ''timeout''), None]\<rparr>)))
      = [DbDelete 7, RedisDel ''app:id:7'', RedisDel ''app:email:a@b'', RedisDel ''app:mail2:a@b'']
   \<and> trace (snd (softDeleteByIdR ex_two_links ex_model 7
          (ex_world\<lparr>faults := [None, None] @ [Some (Failure ''timeout''), None]\<rparr>)))
      = [DbSoftDelete 7, RedisDel ''app:id:7'', RedisDel ''app:email:a@b'',
         RedisDel ''app:mail2:a@b'']
   \<and> fst (softDeleteByIdR ex_two_links ex_model 7
          (ex_world\<lparr>faults := [None, None] @ [Some (Failure ''timeout''), None]\<rparr>)) = None
   \<and> link_del_calls ex_two_links ex_model (LinkMap ex_two_links)
      = [RedisDel ''app:email:a@b'', RedisDel ''app:mail2:a@b'']"
  using link_delete_errors_discarded [where c = ex_two_links and m = ex_model and i = 7
      and w = ex_world and ?f1.0 = None and ?f2.0 = None
      and rest = "[Some (Failure ''timeout''), None]"]
  by (simp add: op_defs ex_defs link_del_calls_def)

text \<open>
  Claim C9: the primary cache key is the prefix, \<open>id:\<close> and the id in decimal; the
  link cache key is the prefix, the linkType, a colon and the field; a link entry is
  written with an expiry of 7 days (604800000000000 ns) and a primary entry with the
  configured expiry.
\<close>

theorem cache_key_formats:
  "cacheKey c i = RedisPrefix c @ ''id:'' @ decimal (unat i)
   \<and> linkKey c linkType field = RedisPrefix c @ linkType @ '':'' @ field
   \<and> (fst (createLink c i linkType field w) = None \<longrightarrow>
        trace (snd (createLink c i linkType field w))
          = trace w @ [RedisSet (RedisPrefix c @ linkType @ '':'' @ field) (decimal (unat i))
                         604800000000000]
        \<and> cache (snd (createLink c i linkType field w)) (RedisPrefix c @ linkType @ '':'' @ field)
          = Some (decimal (unat i), 604800000000000))
   \<and> (fst (updateCache c m i w) = None \<longrightarrow>
        trace (snd (updateCache c m i w))
          = trace w @ [RedisSet (RedisPrefix c @ ''id:'' @ decimal (unat i))
                         (json_Marshal m (val m)) (Expire c)]
        \<and> cache (snd (updateCache c m i w)) (RedisPrefix c @ ''id:'' @ decimal (unat i))
          = Some (json_Marshal m (val m), Expire c))"
  by (auto simp add: cacheKey_def linkKey_def createLink_def updateCache_def redis_Set_def
        client_call_def cast_ToString_def Hour_def split: list.splits option.splits if_splits)

theorem cache_key_formats_witness:
  "cacheKey ex_conf 1234 = ''app:id:1234''
   \<and> linkKey ex_conf ''email'' ''a@b'' = ''app:email:a@b''
   \<and> cache (snd (createLink ex_conf 1234 ''email'' ''a@b'' ex_world)) ''app:email:a@b''
        = Some (''1234'', 7 * 24 * 3600 * 1000000000)
   \<and> cache (snd (updateCache ex_conf ex_model 1234 ex_world)) ''app:id:1234''
        = Some (''0|a@b'', 60000000000)"
  using cache_key_formats [of ex_conf 1234 "''email''" "''a@b''" ex_world ex_model]
  by (simp add: op_defs ex_defs)

text \<open>
  Claim C10: in \<open>FirstByLink\<close> and \<open>FirstByLinkSD\<close> an error of the link-cache
  lookup, the missing-parameter error of an empty field included, is dropped: the call
  goes on to the resolver as after a miss, and what it returns is decided there.
\<close>

theorem link_lookup_error_discarded:
  assumes "map_of (LinkMap c) linkType = Some fnd"
    and "getLink c linkType field w = ((id0, Some e), w1)"
  shows "FirstByLink c linkType m field w =
           (case Find fnd (rows w1) field of
              (idInt, Some e') \<Rightarrow>
                (Some e', m, w1\<lparr>trace := trace w1 @ [ResolverFind linkType field]\<rparr>)
            | (idInt, None) \<Rightarrow>
                if idInt > 0 then
                  (case createLink c idInt linkType field
                          (w1\<lparr>trace := trace w1 @ [ResolverFind linkType field]\<rparr>) of
                     (Some e', w3) \<Rightarrow> (Some e', m, w3)
                   | (None, w3) \<Rightarrow> FirstById c m idInt w3)
                else (None, m, w1\<lparr>trace := trace w1 @ [ResolverFind linkType field]\<rparr>))
         \<and> FirstByLinkSD c linkType m field w = FirstByLink c linkType m field w
         \<and> (field = [] \<longrightarrow> e = ErrGetLinkField \<and> w1 = w)"
proof -
  have "id0 = []"
    using assms(2) by (rule getLink_error_empty)
  then show ?thesis
    using assms
    by (auto simp add: FirstByLink_def FirstByLinkSD_def Let_def cast_roundtrip
          cast_ToUint64_Nil word_greater_zero_iff getLink_def
          split: prod.splits option.splits)
qed

text \<open>
  On the sample: the cache fails on the lookup, and then the field is empty; neither error
  is returned.
\<close>

theorem link_lookup_error_discarded_witness:
  "fst (fst (getLink ex_conf ''email'' ''a@b'' ex_down)) = []
   \<and> snd (fst (getLink ex_conf ''email'' ''a@b'' ex_down)) = Some (Failure ''connection refused'')
   \<and> fst (FirstByLink ex_conf ''email'' ex_blank ''a@b'' ex_down) = None
   \<and> val (fst (snd (FirstByLink ex_conf ''email'' ex_blank ''a@b'' ex_down))) = ex_row
   \<and> trace (snd (snd (FirstByLink ex_conf ''email'' ex_blank ''a@b'' ex_down)))
       = [RedisGet ''app:email:a@b'', ResolverFind ''email'' ''a@b'',
          RedisSet ''app:email:a@b'' ''7'' 604800000000000,
          RedisGet ''app:id:7'', DbFirst 7, RedisSet ''app:id:7'' ''0|a@b'' 60000000000]
   \<and> snd (fst (getLink ex_conf ''email'' [] ex_world)) = Some ErrGetLinkField
   \<and> fst (FirstByLinkSD ex_conf ''email'' ex_blank [] ex_world) = None
   \<and> trace (snd (snd (FirstByLinkSD ex_conf ''email'' ex_blank [] ex_world)))
       = [ResolverFind ''email'' []]"
  using
    link_lookup_error_discarded [of ex_conf "''email''" ex_finder "''a@b''" ex_down
      "fst (fst (getLink ex_conf ''email'' ''a@b'' ex_down))" "Failure ''connection refused''"
      "snd (getLink ex_conf ''email'' ''a@b'' ex_down)" ex_blank]
    link_lookup_error_discarded [of ex_conf "''email''" ex_finder "[]" ex_world
      "[]" ErrGetLinkField ex_world ex_blank]
  by (simp add: op_defs ex_defs FirstByLink_def FirstByLinkSD_def)

end
